theory Spec2Isabelle
  imports Complex_Main
begin

section \<open>Conventions of the embedding\<close>

text \<open>
  The front end is TypeScript. A \<^verbatim>\<open>number\<close> that carries a price, a volume, a
  percentage or a timestamp is an exact \<^typ>\<open>real\<close>. Two places go further: the bounds on
  the remainder of a partial close depend on the rounding of IEEE doubles, so the precheck
  has a second model that rounds every operation; and where the not-a-number value decides
  a result (\<^verbatim>\<open>parseFloat\<close> in the form validation) there is a number type of its own. A \<^verbatim>\<open>number\<close> that carries a
  broker ticket or a clock reading in milliseconds is an \<^typ>\<open>int\<close>. A field that may be
  \<^verbatim>\<open>null\<close> or \<^verbatim>\<open>undefined\<close> is an \<^typ>\<open>'a option\<close>. An \<^verbatim>\<open>async\<close>
  function that awaits one HTTP call is a function from the log of requests sent so far to
  its result and the extended log; a rejected promise is the left injection of a sum.
\<close>

datatype direction = Buy | Sell

text \<open>The value a rejected promise carries: an \<^verbatim>\<open>Error\<close> with its message, or anything else.\<close>

datatype thrown = Error string | Thrown


section \<open>The wire records (src/unnamed/part_000, types/settings.ts)\<close>

record OrderRequest =
  or_symbol :: string
  or_direction :: direction
  or_volume :: real
  or_price :: "real option"
  or_sl_price :: real
  or_tp_price :: "real option"
  or_ui_armed :: bool

record PartialCloseRequest =
  pc_position_ticket :: "int option"
  pc_percent :: "real option"
  pc_ticket :: "int option"
  pc_volume :: "real option"
  pc_ui_armed :: bool

record OrderResponse =
  success :: bool
  ticket :: "int option"
  order_ticket :: "int option"
  position_ticket :: "int option"
  error :: "string option"

record PartialCloseResponse = OrderResponse +
  symbol :: "string option"
  position_volume :: "real option"
  percent :: "real option"
  requested_volume :: "real option"
  close_volume :: "real option"
  remaining_volume :: "real option"
  blocked_reason :: "string option"
  volume_min :: "real option"
  volume_step :: "real option"
  mt5_retcode :: "int option"
  mt5_comment :: "string option"

record PositionInfo =
  pi_position_ticket :: int
  pi_symbol :: string
  pi_direction :: direction
  pi_volume :: real
  pi_price_open :: real
  pi_sl :: "real option"
  pi_tp :: "real option"
  pi_digits :: nat
  pi_pip_in_price :: real
  pi_volume_min :: real
  pi_volume_step :: real

record OpenPositionInfo =
  op_ticket :: int
  op_symbol :: string
  op_type :: int
  op_volume :: real
  op_price_open :: real
  op_sl :: "real option"
  op_tp :: "real option"
  op_magic :: int
  op_comment :: "string option"
  op_time :: "int option"

record SymbolPreset =
  sp_symbol :: string
  sp_pip_value_per_1_lot :: real
  sp_pip_size :: real


section \<open>api/mt5.ts: the calls that mutate orders\<close>

text \<open>
  \<^verbatim>\<open>apiClient\<close> comes from \<^verbatim>\<open>./client\<close>, which is not among the sources; it is taken
  as a parameter. An endpoint answers a request, knowing the requests sent before it, with
  the \<^verbatim>\<open>data\<close> of the response or with the value the promise rejects with.
\<close>

record 'b request =
  req_url :: string
  req_body :: 'b

type_synonym ('b, 'r) endpoint = "'b request list \<Rightarrow> 'b request \<Rightarrow> thrown + 'r"

definition apiClient_post ::
  "('b, 'r) endpoint \<Rightarrow> string \<Rightarrow> 'b \<Rightarrow> 'b request list \<Rightarrow> (thrown + 'r) \<times> 'b request list" where
  "apiClient_post ep u b sent =
     (let rq = \<lparr>req_url = u, req_body = b\<rparr> in (ep sent rq, sent @ [rq]))"

definition placeOrder ::
  "(OrderRequest, OrderResponse) endpoint \<Rightarrow> OrderRequest \<Rightarrow> OrderRequest request list
     \<Rightarrow> (thrown + OrderResponse) \<times> OrderRequest request list" where
  "placeOrder ep request sent = apiClient_post ep ''/mt5/order'' request sent"

definition partialClose ::
  "(PartialCloseRequest, PartialCloseResponse) endpoint \<Rightarrow> PartialCloseRequest
     \<Rightarrow> PartialCloseRequest request list
     \<Rightarrow> (thrown + PartialCloseResponse) \<times> PartialCloseRequest request list" where
  "partialClose ep request sent = apiClient_post ep ''/mt5/partial-close'' request sent"

text \<open>
  \<^verbatim>\<open>closePosition\<close> posts the object literal
  \<^verbatim>\<open>{ position_ticket: positionTicket, percent: 100, ui_armed }\<close>; the legacy fields
  \<^verbatim>\<open>ticket\<close> and \<^verbatim>\<open>volume\<close> are absent from it.
\<close>

definition closePosition ::
  "(PartialCloseRequest, PartialCloseResponse) endpoint \<Rightarrow> int \<Rightarrow> bool
     \<Rightarrow> PartialCloseRequest request list
     \<Rightarrow> (thrown + PartialCloseResponse) \<times> PartialCloseRequest request list" where
  "closePosition ep positionTicket ui_armed sent =
     apiClient_post ep ''/mt5/partial-close''
       \<lparr>pc_position_ticket = Some positionTicket, pc_percent = Some 100,
        pc_ticket = None, pc_volume = None, pc_ui_armed = ui_armed\<rparr> sent"


section \<open>ExecuteTradeButton (src/unnamed/part_003): the execute handler\<close>

record ExecuteTradeButtonProps =
  p_symbol :: string
  p_direction :: direction
  p_volume :: real
  p_entryPrice :: real
  p_stopPips :: real
  p_tp1Pips :: "real option"
  p_pendingOrder :: bool
  p_armed :: bool

text \<open>What the handler does to its surroundings, in order (the console log is left out).\<close>

datatype ui_effect =
    SetLoading bool
  | OnOrderPlaced int "int option"
  | OnError string

text \<open>\<^verbatim>\<open>symbolPreset?.pip_size || 0.0001\<close>: a missing preset and a zero pip size both give the default.\<close>

definition pipSize :: "SymbolPreset list \<Rightarrow> string \<Rightarrow> real" where
  "pipSize symbol_presets name =
     (case find (\<lambda>p. sp_symbol p = name) symbol_presets of
        None \<Rightarrow> 0.0001
      | Some p \<Rightarrow> if sp_pip_size p = 0 then 0.0001 else sp_pip_size p)"

definition slPrice :: "ExecuteTradeButtonProps \<Rightarrow> SymbolPreset list \<Rightarrow> real" where
  "slPrice props symbol_presets =
     (if p_direction props = Buy
      then p_entryPrice props - (p_stopPips props * pipSize symbol_presets (p_symbol props))
      else p_entryPrice props + (p_stopPips props * pipSize symbol_presets (p_symbol props)))"

definition orderRequest :: "ExecuteTradeButtonProps \<Rightarrow> SymbolPreset list \<Rightarrow> OrderRequest" where
  "orderRequest props symbol_presets =
     \<lparr>or_symbol = p_symbol props,
      or_direction = p_direction props,
      or_volume = p_volume props,
      or_price = (if p_pendingOrder props then Some (p_entryPrice props) else None),
      or_sl_price = slPrice props symbol_presets,
      or_tp_price = None,
      or_ui_armed = p_armed props\<rparr>"

text \<open>\<^verbatim>\<open>x || d\<close> on a nullable string: \<^verbatim>\<open>null\<close> and the empty string give \<^verbatim>\<open>d\<close>.\<close>

definition or_else :: "string option \<Rightarrow> string \<Rightarrow> string" where
  "or_else x d = (case x of None \<Rightarrow> d | Some s \<Rightarrow> if s = [] then d else s)"

definition after_response :: "OrderResponse \<Rightarrow> ui_effect list" where
  "after_response response =
     (let order_ticket = (case order_ticket response of Some t \<Rightarrow> Some t | None \<Rightarrow> ticket response);
          position_ticket = position_ticket response
      in case order_ticket of
           Some t \<Rightarrow>
             if success response \<and> t \<noteq> 0 then [OnOrderPlaced t position_ticket]
             else [OnError (or_else (error response) ''Order failed'')]
         | None \<Rightarrow> [OnError (or_else (error response) ''Order failed'')])"

definition after_throw :: "thrown \<Rightarrow> ui_effect list" where
  "after_throw e = (case e of Error message \<Rightarrow> [OnError message] | Thrown \<Rightarrow> [OnError ''Network error''])"

definition handleExecute ::
  "ExecuteTradeButtonProps \<Rightarrow> SymbolPreset list \<Rightarrow> (OrderRequest, OrderResponse) endpoint
     \<Rightarrow> OrderRequest request list \<Rightarrow> ui_effect list \<times> OrderRequest request list" where
  "handleExecute props symbol_presets ep sent =
     (if \<not> p_armed props then ([], sent)
      else
        let (res, sent') = placeOrder ep (orderRequest props symbol_presets) sent
        in ([SetLoading True]
              @ (case res of Inr response \<Rightarrow> after_response response | Inl e \<Rightarrow> after_throw e)
              @ [SetLoading False],
            sent'))"


section \<open>The execution guard\<close>

datatype api_error = AuthorizationError

text \<open>
  Modelled from the spec: \<^verbatim>\<open>ExecutionGuard.authorize\<close> and the guard in front of every
  order-mutating operation run in the back end, which is not among the sources. The spec:
  both flags must independently be true; when the guard refuses, the operation fails with an
  authorization error, independent of any other validation, and the operation is not run.
\<close>

definition authorize :: "bool \<Rightarrow> bool \<Rightarrow> bool" where
  "authorize ui_armed backend_execution_enabled = (ui_armed \<and> backend_execution_enabled)"

definition guarded :: "bool \<Rightarrow> bool \<Rightarrow> ('s \<Rightarrow> 'a \<times> 's) \<Rightarrow> 's \<Rightarrow> (api_error + 'a) \<times> 's" where
  "guarded ui_armed backend_execution_enabled operation s =
     (if authorize ui_armed backend_execution_enabled
      then (let (a, s') = operation s in (Inr a, s'))
      else (Inl AuthorizationError, s))"


section \<open>components/PostOrderPanel.tsx: TP1 price, volume precheck, watcher poll\<close>

subsection \<open>The TP1 price shown for a position\<close>

text \<open>\<^verbatim>\<open>Math.round\<close>: the nearest integer, a tie going up.\<close>

definition Math_round :: "real \<Rightarrow> int" where
  "Math_round x = \<lfloor>x + 1 / 2\<rfloor>"

text \<open>
  The body of the \<^verbatim>\<open>useMemo\<close> for \<^verbatim>\<open>tp1Price\<close>: \<^verbatim>\<open>null\<close> without a resolved position
  or without \<^verbatim>\<open>tp1Pips\<close>. The price digits of a position are a count of decimals, a \<^typ>\<open>nat\<close>.
\<close>

definition tp1Price :: "PositionInfo option \<Rightarrow> real option \<Rightarrow> real option" where
  "tp1Price position tp1Pips =
     (case position of
        None \<Rightarrow> None
      | Some pos \<Rightarrow>
          (case tp1Pips of
             None \<Rightarrow> None
           | Some pips \<Rightarrow>
               let delta = pips * pi_pip_in_price pos;
                   raw = (if pi_direction pos = Buy then pi_price_open pos + delta
                          else pi_price_open pos - delta);
                   factor = 10 ^ pi_digits pos
               in Some (real_of_int (Math_round (raw * factor)) / factor)))"

text \<open>
  The panel prints the trigger next to the price: \<^verbatim>\<open>Bid \<ge> TP1\<close> for a buy,
  \<^verbatim>\<open>Ask \<le> TP1\<close> for a sell. The two texts are the two values of a datatype.
\<close>

datatype trigger = Bid_ge_TP1 | Ask_le_TP1

definition triggerLabel :: "PositionInfo \<Rightarrow> trigger" where
  "triggerLabel pos = (if pi_direction pos = Buy then Bid_ge_TP1 else Ask_le_TP1)"

text \<open>
  Modelled from the spec: the watcher loop that evaluates the trigger and keeps the TP1
  price of each watched position runs in the back end, which is not among the sources.
  The spec: TP1 is reachable for a buy when the current bid is at least the TP1 price, for a
  sell when the current ask is at most the TP1 price; the first registration of a position
  computes the price once and caches it, and the price does not move if the pips
  configuration changes later. The price computed at registration is \<^const>\<open>tp1Price\<close>.
\<close>

definition trigger_holds :: "trigger \<Rightarrow> real \<Rightarrow> real \<Rightarrow> real \<Rightarrow> bool" where
  "trigger_holds tr bid ask tp1 = (case tr of Bid_ge_TP1 \<Rightarrow> bid \<ge> tp1 | Ask_le_TP1 \<Rightarrow> ask \<le> tp1)"

definition register_watch :: "(int \<rightharpoonup> real) \<Rightarrow> PositionInfo \<Rightarrow> real \<Rightarrow> (int \<rightharpoonup> real)" where
  "register_watch watched pos tp1_pips =
     (case watched (pi_position_ticket pos) of
        Some cached \<Rightarrow> watched
      | None \<Rightarrow>
          (case tp1Price (Some pos) (Some tp1_pips) of
             Some price \<Rightarrow> watched(pi_position_ticket pos \<mapsto> price)
           | None \<Rightarrow> watched))"

subsection \<open>The precheck of the partial-close volume\<close>

record precheck =
  pre_requested :: real
  pre_normalized :: real
  pre_remaining :: real
  pre_min :: real
  pre_step :: real
  pre_blocked :: bool

text \<open>\<^verbatim>\<open>const eps = 1e-12\<close>\<close>

definition eps :: real where
  "eps = 1 / 10 ^ 12"

definition tp1Precheck :: "PositionInfo option \<Rightarrow> real \<Rightarrow> precheck option" where
  "tp1Precheck position partialPercentLocal =
     (case position of
        None \<Rightarrow> None
      | Some pos \<Rightarrow>
          let requested = pi_volume pos * (partialPercentLocal / 100);
              step = pi_volume_step pos;
              minv = pi_volume_min pos;
              steps = (if step > 0 then \<lfloor>(requested + eps) / step\<rfloor> else 0);
              normalized = (if step > 0 then real_of_int steps * step else 0);
              remaining = pi_volume pos - normalized;
              wouldCloseFull = (partialPercentLocal < 100 \<and> normalized \<ge> pi_volume pos);
              remainingBelowMin = (remaining > 0 \<and> remaining < minv);
              blocked = (normalized \<le> 0 \<or> normalized < minv \<or> remainingBelowMin \<or> wouldCloseFull)
          in Some \<lparr>pre_requested = requested, pre_normalized = normalized,
                    pre_remaining = remaining, pre_min = minv, pre_step = step,
                    pre_blocked = blocked\<rparr>)"

text \<open>
  Modelled from the spec: the reason a blocked partial close reports is produced by the
  back end (the \<^verbatim>\<open>blocked_reason\<close> of the response), which is not among the sources; the
  precheck above only has the flag. The spec names four conditions and fixes no precedence
  among them, so the model returns every reason that applies, over the numbers of the
  precheck.
\<close>

datatype blocked_reason = NormalizedZero | NormalizedBelowMin | RemainingBelowMin | WouldCloseFull

definition blocked_reasons :: "real \<Rightarrow> real \<Rightarrow> precheck \<Rightarrow> blocked_reason list" where
  "blocked_reasons owned pct r =
     (if pre_normalized r \<le> 0 then [NormalizedZero] else [])
     @ (if pre_normalized r < pre_min r then [NormalizedBelowMin] else [])
     @ (if 0 < owned - pre_normalized r \<and> owned - pre_normalized r < pre_min r
        then [RemainingBelowMin] else [])
     @ (if pct < 100 \<and> pre_normalized r \<ge> owned then [WouldCloseFull] else [])"

subsection \<open>The precheck in double arithmetic\<close>

text \<open>
  A JavaScript \<^verbatim>\<open>number\<close> is an IEEE 754 double, and \<^verbatim>\<open>+\<close>, \<^verbatim>\<open>-\<close>, \<^verbatim>\<open>*\<close> and
  \<^verbatim>\<open>/\<close> return the double nearest the exact result, a tie going to the even
  significand. \<^verbatim>\<open>Math.floor\<close> of a double is exact.
\<close>

text \<open>The nearest integer, a tie going to the even one.\<close>

definition round_even :: "real \<Rightarrow> int" where
  "round_even y =
     (let f = \<lfloor>y\<rfloor>; d = y - real_of_int f
      in if d < 1 / 2 then f else if d > 1 / 2 then f + 1 else if even f then f else f + 1)"

text \<open>
  The binary exponent of a number: the \<^term>\<open>e\<close> with \<^term>\<open>2 powi e \<le> \<bar>x\<bar>\<close> and
  \<^term>\<open>\<bar>x\<bar> < 2 powi (e + 1)\<close>, found by halving from above 1 and doubling from below it.
\<close>

function expo_up :: "real \<Rightarrow> int" where
  "expo_up x = (if x < 2 then 0 else expo_up (x / 2) + 1)"
  by pat_completeness auto
termination
proof (relation "measure (\<lambda>x. nat \<lfloor>x\<rfloor>)")
  show "wf (measure (\<lambda>x::real. nat \<lfloor>x\<rfloor>))" by simp
next
  fix x :: real
  assume "\<not> x < 2"
  then have "\<lfloor>x / 2\<rfloor> < \<lfloor>x\<rfloor>" "0 < \<lfloor>x\<rfloor>" by linarith+
  then show "(x / 2, x) \<in> measure (\<lambda>x. nat \<lfloor>x\<rfloor>)" by simp
qed

function expo_down :: "real \<Rightarrow> int" where
  "expo_down x = (if x \<le> 0 \<or> 1 \<le> x then 0 else expo_down (2 * x) - 1)"
  by pat_completeness auto
termination
proof (relation "measure (\<lambda>x. nat \<lceil>1 / x\<rceil>)")
  show "wf (measure (\<lambda>x::real. nat \<lceil>1 / x\<rceil>))" by simp
next
  fix x :: real
  assume "\<not> (x \<le> 0 \<or> 1 \<le> x)"
  then have x: "0 < x" "x < 1" by simp_all
  then have y: "1 < 1 / x" by simp
  then have c: "2 \<le> \<lceil>1 / x\<rceil>" by linarith
  have "1 / (2 * x) = (1 / x) / 2" by simp
  also have "\<dots> \<le> real_of_int \<lceil>1 / x\<rceil> / 2" by (simp add: divide_right_mono)
  also have "\<dots> \<le> real_of_int (\<lceil>1 / x\<rceil> - 1)" using c by simp
  finally have "\<lceil>1 / (2 * x)\<rceil> \<le> \<lceil>1 / x\<rceil> - 1" by (simp only: ceiling_le_iff)
  then show "(2 * x, x) \<in> measure (\<lambda>x. nat \<lceil>1 / x\<rceil>)" using c x by simp
qed

definition expo :: "real \<Rightarrow> int" where
  "expo x = (if \<bar>x\<bar> \<ge> 1 then expo_up \<bar>x\<bar> else expo_down \<bar>x\<bar>)"

declare expo_up.simps [simp del] expo_down.simps [simp del]

text \<open>
  The double nearest a real: 53 significant bits, the exponent unbounded. It is the value
  the machine computes whenever that value is a normal double, that is, neither overflown
  nor below \<^term>\<open>2 powi (- 1022) :: real\<close> in magnitude.
\<close>

definition binary64 :: "real \<Rightarrow> real" where
  "binary64 x =
     (if x = 0 then 0
      else real_of_int (round_even (x / 2 powi (expo x - 52))) * 2 powi (expo x - 52))"


text \<open>
  What the bounds below need of a rounding \<^term>\<open>fl\<close> with unit roundoff \<^term>\<open>u\<close>: it keeps 1,
  it is monotone on the non-negative numbers, and its relative error is at most \<^term>\<open>u\<close>.
  \<^const>\<open>binary64\<close> is one with \<^term>\<open>u = 1 / 2 ^ 53\<close>; the identity is one with \<^term>\<open>u = 0\<close>.
\<close>

definition standard_rounding :: "(real \<Rightarrow> real) \<Rightarrow> real \<Rightarrow> bool" where
  "standard_rounding fl u \<longleftrightarrow>
     0 \<le> u \<and> u < 1 \<and> fl 1 = 1
     \<and> (\<forall>x y. 0 \<le> x \<longrightarrow> x \<le> y \<longrightarrow> fl x \<le> fl y)
     \<and> (\<forall>x. \<bar>fl x - x\<bar> \<le> u * \<bar>x\<bar>)"

text \<open>
  The body of the \<^verbatim>\<open>useMemo\<close> for \<^verbatim>\<open>tp1Precheck\<close> again, now with every arithmetic
  operation rounded by \<^term>\<open>fl\<close>, the literal \<^verbatim>\<open>1e-12\<close> included. At the identity it is
  \<^const>\<open>tp1Precheck\<close>.
\<close>

definition tp1Precheck_fl :: "(real \<Rightarrow> real) \<Rightarrow> PositionInfo option \<Rightarrow> real \<Rightarrow> precheck option" where
  "tp1Precheck_fl fl position partialPercentLocal =
     (case position of
        None \<Rightarrow> None
      | Some pos \<Rightarrow>
          let requested = fl (pi_volume pos * fl (partialPercentLocal / 100));
              step = pi_volume_step pos;
              minv = pi_volume_min pos;
              steps = (if step > 0 then \<lfloor>fl (fl (requested + fl eps) / step)\<rfloor> else 0);
              normalized = (if step > 0 then fl (real_of_int steps * step) else 0);
              remaining = fl (pi_volume pos - normalized);
              wouldCloseFull = (partialPercentLocal < 100 \<and> normalized \<ge> pi_volume pos);
              remainingBelowMin = (remaining > 0 \<and> remaining < minv);
              blocked = (normalized \<le> 0 \<or> normalized < minv \<or> remainingBelowMin \<or> wouldCloseFull)
          in Some \<lparr>pre_requested = requested, pre_normalized = normalized,
                    pre_remaining = remaining, pre_min = minv, pre_step = step,
                    pre_blocked = blocked\<rparr>)"

subsection \<open>Polling the watcher status\<close>

text \<open>
  Of an event the poll reads the timestamp, which counts only when it is of type
  \<^verbatim>\<open>number\<close> (\<^const>\<open>None\<close> otherwise), and the volume it formats with
  \<^verbatim>\<open>toFixed\<close>, which throws when the field is not a number (\<^const>\<open>None\<close>). The other
  fields only fill the text of the toast, which the model replaces by the event itself.
\<close>

record TP1Event =
  tp1_ticket :: int
  tp1_timestamp :: "real option"
  tp1_close_volume :: "real option"

record SLEvent =
  sl_ticket :: int
  sl_timestamp :: "real option"
  sl_volume :: "real option"

record WatcherStatus =
  running :: bool
  tp1_done_count :: int
  watched_positions :: int
  last_tp1_event :: "TP1Event option"
  last_sl_event :: "SLEvent option"

datatype status_line = Blank | ActiveDone int | ActiveWatching int | Stopped

datatype notification = Tp1_watcher TP1Event | Sl_hit SLEvent

record panel =
  lastSeenTp1Ts :: real
  lastSeenSlTs :: real
  tp1Done :: bool
  watcherStatus :: status_line

definition status_text :: "WatcherStatus \<Rightarrow> status_line" where
  "status_text status =
     (if running status
      then (if tp1_done_count status > 0 then ActiveDone (tp1_done_count status)
            else ActiveWatching (watched_positions status))
      else Stopped)"

text \<open>The check for a new SL event, the last statement of the \<^verbatim>\<open>try\<close> block.\<close>

definition check_sl :: "WatcherStatus \<Rightarrow> panel \<Rightarrow> notification list \<Rightarrow> panel \<times> notification list" where
  "check_sl status st ns =
     (case last_sl_event status of
        None \<Rightarrow> (st, ns)
      | Some slEvt \<Rightarrow>
          (case sl_timestamp slEvt of
             None \<Rightarrow> (st, ns)
           | Some ts \<Rightarrow>
               (if ts > lastSeenSlTs st
                then (let st' = st\<lparr>lastSeenSlTs := ts\<rparr>
                      in (case sl_volume slEvt of
                            None \<Rightarrow> (st', ns)
                          | Some v \<Rightarrow> (st', ns @ [Sl_hit slEvt])))
                else (st, ns))))"

text \<open>
  One run of the interval callback on the outcome of \<^verbatim>\<open>getTP1WatcherStatus\<close>. A throw
  inside the \<^verbatim>\<open>try\<close> block ends the run: what was assigned before it stays, what comes
  after it is skipped.
\<close>

definition poll :: "panel \<Rightarrow> thrown + WatcherStatus \<Rightarrow> panel \<times> notification list" where
  "poll st res =
     (case res of
        Inl e \<Rightarrow> (st, [])
      | Inr status \<Rightarrow>
          (let st1 = st\<lparr>watcherStatus := status_text status\<rparr>
           in (case last_tp1_event status of
                 None \<Rightarrow> check_sl status st1 []
               | Some tp1Evt \<Rightarrow>
                   (case tp1_timestamp tp1Evt of
                      None \<Rightarrow> check_sl status st1 []
                    | Some ts \<Rightarrow>
                        (if ts > lastSeenTp1Ts st1
                         then (let st2 = st1\<lparr>lastSeenTp1Ts := ts, tp1Done := True\<rparr>
                               in (case tp1_close_volume tp1Evt of
                                     None \<Rightarrow> (st2, [])
                                   | Some v \<Rightarrow> check_sl status st2 [Tp1_watcher tp1Evt]))
                         else check_sl status st1 [])))))"

fun polls :: "panel \<Rightarrow> (thrown + WatcherStatus) list \<Rightarrow> panel \<times> notification list" where
  "polls st [] = (st, [])"
| "polls st (res # rest) =
     (let (st', ns) = poll st res; (st'', ns') = polls st' rest in (st'', ns @ ns'))"

text \<open>The timestamps notified, by kind, in the order of the notifications.\<close>

definition tp1_notified :: "notification list \<Rightarrow> real list" where
  "tp1_notified ns = concat (map (\<lambda>n. case n of Tp1_watcher e \<Rightarrow> (case tp1_timestamp e of Some ts \<Rightarrow> [ts] | None \<Rightarrow> []) | Sl_hit e \<Rightarrow> []) ns)"

definition sl_notified :: "notification list \<Rightarrow> real list" where
  "sl_notified ns = concat (map (\<lambda>n. case n of Sl_hit e \<Rightarrow> (case sl_timestamp e of Some ts \<Rightarrow> [ts] | None \<Rightarrow> []) | Tp1_watcher e \<Rightarrow> []) ns)"

text \<open>The events notified, by kind, in the order of the notifications.\<close>

definition tp1_events :: "notification list \<Rightarrow> TP1Event list" where
  "tp1_events ns = concat (map (\<lambda>n. case n of Tp1_watcher e \<Rightarrow> [e] | Sl_hit e \<Rightarrow> []) ns)"

definition sl_events :: "notification list \<Rightarrow> SLEvent list" where
  "sl_events ns = concat (map (\<lambda>n. case n of Sl_hit e \<Rightarrow> [e] | Tp1_watcher e \<Rightarrow> []) ns)"

text \<open>
  Modelled from the spec: the watcher that stamps the events runs in the back end, which
  is not among the sources. The spec: the timestamp is the wall clock with a tie broken by
  a counter, so that it is strictly above the timestamp of the event of the same kind
  before it. \<^term>\<open>stamps prev clocks\<close> are the timestamps of the events emitted at the clock
  readings \<^term>\<open>clocks\<close> after an event stamped \<^term>\<open>prev\<close>.
\<close>

definition next_timestamp :: "real \<Rightarrow> real \<Rightarrow> real" where
  "next_timestamp prev clock = (if clock > prev then clock else prev + 1)"

fun stamps :: "real \<Rightarrow> real list \<Rightarrow> real list" where
  "stamps prev [] = []"
| "stamps prev (clock # clocks) = next_timestamp prev clock # stamps (next_timestamp prev clock) clocks"


section \<open>Calculator (in hooks/useCalculation.ts): reconciling managed trades with the open positions\<close>

record ManagedTrade =
  mt_id :: string
  mt_symbol :: string
  mt_direction :: direction
  mt_order_ticket :: int
  mt_position_ticket :: "int option"
  mt_created_at :: int

definition MAGIC :: int where
  "MAGIC = 123456"

definition directionToPositionType :: "direction \<Rightarrow> int" where
  "directionToPositionType dir = (if dir = Buy then 0 else 1)"

text \<open>\<^verbatim>\<open>p.time ?? 0\<close>\<close>

definition time_or_0 :: "OpenPositionInfo \<Rightarrow> int" where
  "time_or_0 p = (case op_time p of None \<Rightarrow> 0 | Some t \<Rightarrow> t)"

text \<open>
  The candidates for a pending fill: same magic, symbol and side, newest first. The
  comparator \<^verbatim>\<open>(b.time ?? 0) - (a.time ?? 0)\<close> sorts by falling time and
  \<^verbatim>\<open>Array.prototype.sort\<close> is stable, as \<^const>\<open>sort_key\<close> is.
\<close>

definition matches :: "OpenPositionInfo list \<Rightarrow> ManagedTrade \<Rightarrow> OpenPositionInfo list" where
  "matches positions t =
     sort_key (\<lambda>p. - time_or_0 p)
       (filter (\<lambda>p. op_magic p = MAGIC \<and> op_symbol p = mt_symbol t
                     \<and> op_type p = directionToPositionType (mt_direction t)) positions)"

text \<open>
  The \<^verbatim>\<open>for\<close> loop over the previous trades, with the set of claimed tickets and the
  list built so far as its state.
\<close>

fun reconcile ::
  "OpenPositionInfo list \<Rightarrow> int \<Rightarrow> ManagedTrade list \<Rightarrow> int set \<Rightarrow> ManagedTrade list
     \<Rightarrow> ManagedTrade list" where
  "reconcile positions now [] claimedTickets next = next"
| "reconcile positions now (t # rest) claimedTickets next =
     (if mt_position_ticket t = None \<and> now - mt_created_at t > 60000
      then reconcile positions now rest claimedTickets next
      else (case mt_position_ticket t of
              Some pt \<Rightarrow>
                (if pt \<notin> set (map op_ticket positions)
                 then reconcile positions now rest claimedTickets next
                 else reconcile positions now rest claimedTickets (next @ [t]))
            | None \<Rightarrow>
                (case find (\<lambda>m. op_ticket m \<notin> claimedTickets) (matches positions t) of
                   Some m \<Rightarrow>
                     reconcile positions now rest (insert (op_ticket m) claimedTickets)
                       (next @ [t\<lparr>mt_position_ticket := Some (op_ticket m)\<rparr>])
                 | None \<Rightarrow> reconcile positions now rest claimedTickets (next @ [t]))))"

text \<open>The position tickets of the resolved trades of a list, in order.\<close>

definition resolved_tickets :: "ManagedTrade list \<Rightarrow> int list" where
  "resolved_tickets ts = List.map_filter mt_position_ticket ts"

text \<open>The updater handed to \<^verbatim>\<open>setTrades\<close> in one tick.\<close>

definition tick :: "OpenPositionInfo list \<Rightarrow> int \<Rightarrow> ManagedTrade list \<Rightarrow> ManagedTrade list" where
  "tick positions now prev = reconcile positions now prev (set (resolved_tickets prev)) []"


section \<open>components/calculator/InputForm.tsx: validating the form\<close>

subsection \<open>\<^verbatim>\<open>parseFloat\<close>\<close>

text \<open>
  What \<^verbatim>\<open>parseFloat\<close> returns: not-a-number, a finite number (kept exact), or an infinity.
  A comparison with not-a-number is false.
\<close>

datatype jsnum = NaN | Num real | PosInfinity | NegInfinity

definition js_le :: "jsnum \<Rightarrow> real \<Rightarrow> bool" where
  "js_le x c = (case x of NaN \<Rightarrow> False | Num r \<Rightarrow> r \<le> c | PosInfinity \<Rightarrow> False | NegInfinity \<Rightarrow> True)"

definition js_gt :: "jsnum \<Rightarrow> real \<Rightarrow> bool" where
  "js_gt x c = (case x of NaN \<Rightarrow> False | Num r \<Rightarrow> r > c | PosInfinity \<Rightarrow> True | NegInfinity \<Rightarrow> False)"

definition js_neg :: "jsnum \<Rightarrow> jsnum" where
  "js_neg x = (case x of NaN \<Rightarrow> NaN | Num r \<Rightarrow> Num (- r) | PosInfinity \<Rightarrow> NegInfinity | NegInfinity \<Rightarrow> PosInfinity)"

definition is_digit :: "char \<Rightarrow> bool" where
  "is_digit c = (c \<in> set ''0123456789'')"

definition is_space :: "char \<Rightarrow> bool" where
  "is_space c = (c \<in> set [CHR '' '', CHR 0x09, CHR 0x0A, CHR 0x0B, CHR 0x0C, CHR 0x0D])"

definition digits_val :: "string \<Rightarrow> nat" where
  "digits_val ds = foldl (\<lambda>n c. 10 * n + (of_char c - 48)) 0 ds"

definition scale10 :: "real \<Rightarrow> int \<Rightarrow> real" where
  "scale10 m e = (if e \<ge> 0 then m * 10 ^ nat e else m / 10 ^ nat (- e))"

text \<open>
  The value of the longest exponent part (\<^verbatim>\<open>e\<close> or \<^verbatim>\<open>E\<close>, an optional sign, digits) the
  text starts with; 0 when it starts with none.
\<close>

definition exponent_part :: "string \<Rightarrow> int" where
  "exponent_part s =
     (case s of
        [] \<Rightarrow> 0
      | c # r \<Rightarrow>
          (if c = CHR ''e'' \<or> c = CHR ''E''
           then (case r of
                   [] \<Rightarrow> 0
                 | d # r' \<Rightarrow>
                     (if d = CHR ''+'' then int (digits_val (takeWhile is_digit r'))
                      else if d = CHR ''-'' then - int (digits_val (takeWhile is_digit r'))
                      else int (digits_val (takeWhile is_digit r))))
           else 0))"

text \<open>
  The longest prefix that is an unsigned decimal literal: \<^verbatim>\<open>Infinity\<close>, or digits with an
  optional fraction and exponent, or a fraction that starts with the point.
\<close>

definition str_unsigned_decimal :: "string \<Rightarrow> jsnum" where
  "str_unsigned_decimal s =
     (if take 8 s = ''Infinity'' then PosInfinity
      else
        (let ip = takeWhile is_digit s; r1 = dropWhile is_digit s
         in (case r1 of
               [] \<Rightarrow> (if ip = [] then NaN else Num (real (digits_val ip)))
             | c # r2 \<Rightarrow>
                 (if c = CHR ''.''
                  then (let fp = takeWhile is_digit r2; r3 = dropWhile is_digit r2
                        in (if ip = [] \<and> fp = [] then NaN
                            else Num (scale10 (real (digits_val (ip @ fp)))
                                        (exponent_part r3 - int (length fp)))))
                  else (if ip = [] then NaN
                        else Num (scale10 (real (digits_val ip)) (exponent_part r1)))))))"

definition parseFloat :: "string \<Rightarrow> jsnum" where
  "parseFloat s =
     (case dropWhile is_space s of
        [] \<Rightarrow> NaN
      | c # r \<Rightarrow>
          (if c = CHR ''-'' then js_neg (str_unsigned_decimal r)
           else if c = CHR ''+'' then str_unsigned_decimal r
           else str_unsigned_decimal (c # r)))"

subsection \<open>\<^verbatim>\<open>validateForm\<close> and \<^verbatim>\<open>handleSubmit\<close>\<close>

record CalculatorFormState =
  f_account_balance :: string
  f_risk_percent :: string
  f_symbol :: string
  f_direction :: direction
  f_entry_price :: string
  f_pending_order :: bool
  f_stop_pips :: string
  f_tp1_pips :: string
  f_pip_value_per_1_lot :: string

text \<open>
  \<^verbatim>\<open>newErrors\<close> is the list of the keys set, each with its message, in the order of the
  assignments; the form is valid when no key is set. \<^verbatim>\<open>!s\<close> on a string holds for the
  empty string.
\<close>

definition validateForm :: "string \<Rightarrow> CalculatorFormState \<Rightarrow> (string \<times> string) list \<times> bool" where
  "validateForm active_symbol formData =
     (let newErrors =
        (if active_symbol = [] then [(''symbol'', ''Please choose a symbol'')] else [])
        @ (if f_account_balance formData = [] \<or> js_le (parseFloat (f_account_balance formData)) 0
           then [(''account_balance'', ''Account balance must be greater than 0'')] else [])
        @ (if f_risk_percent formData = [] \<or> js_le (parseFloat (f_risk_percent formData)) 0
                \<or> js_gt (parseFloat (f_risk_percent formData)) 100
           then [(''risk_percent'', ''Risk percent must be between 0 and 100'')] else [])
        @ (if f_entry_price formData = [] \<or> js_le (parseFloat (f_entry_price formData)) 0
           then [(''entry_price'', ''Entry price must be greater than 0'')] else [])
        @ (if f_stop_pips formData = [] \<or> js_le (parseFloat (f_stop_pips formData)) 0
           then [(''stop_pips'', ''Stop pips must be greater than 0'')] else [])
        @ (if f_pip_value_per_1_lot formData = [] \<or> js_le (parseFloat (f_pip_value_per_1_lot formData)) 0
           then [(''pip_value_per_1_lot'', ''Pip value must be greater than 0'')] else [])
      in (newErrors, newErrors = []))"

text \<open>\<^verbatim>\<open>handleSubmit\<close>: the errors shown, and the calls of \<^verbatim>\<open>onCalculate\<close> made.\<close>

definition handleSubmit ::
  "string \<Rightarrow> CalculatorFormState \<Rightarrow> (string \<times> string) list \<times> CalculatorFormState list" where
  "handleSubmit active_symbol formData =
     (let (errors, ok) = validateForm active_symbol formData
      in (errors, if ok then [formData] else []))"


section \<open>Derived notions and concrete inputs\<close>

text \<open>The requests one run of the execute handler adds to the log.\<close>

definition submitted ::
  "ExecuteTradeButtonProps \<Rightarrow> SymbolPreset list \<Rightarrow> (OrderRequest, OrderResponse) endpoint
     \<Rightarrow> OrderRequest request list \<Rightarrow> OrderRequest request list" where
  "submitted props symbol_presets ep sent =
     drop (length sent) (snd (handleExecute props symbol_presets ep sent))"

text \<open>The presets of \<^verbatim>\<open>DEFAULT_SETTINGS\<close> and a market buy of gold, armed and unarmed.\<close>

definition default_presets :: "SymbolPreset list" where
  "default_presets =
     [\<lparr>sp_symbol = ''XAUUSD'', sp_pip_value_per_1_lot = 10, sp_pip_size = 0.1\<rparr>,
      \<lparr>sp_symbol = ''BTCUSD'', sp_pip_value_per_1_lot = 1, sp_pip_size = 1\<rparr>,
      \<lparr>sp_symbol = ''EURUSD'', sp_pip_value_per_1_lot = 10, sp_pip_size = 0.0001\<rparr>]"

definition gold_buy :: ExecuteTradeButtonProps where
  "gold_buy = \<lparr>p_symbol = ''XAUUSD'', p_direction = Buy, p_volume = 0.2, p_entryPrice = 2000,
               p_stopPips = 50, p_tp1Pips = Some 30, p_pendingOrder = False, p_armed = True\<rparr>"

definition gold_buy_unarmed :: ExecuteTradeButtonProps where
  "gold_buy_unarmed = gold_buy\<lparr>p_armed := False\<rparr>"

text \<open>An endpoint that accepts every order with order ticket 1 and no position yet.\<close>

definition accepting :: "(OrderRequest, OrderResponse) endpoint" where
  "accepting sent rq = Inr \<lparr>success = True, ticket = None, order_ticket = Some 1,
                            position_ticket = None, error = None\<rparr>"

text \<open>The position of scenarios 4 and 5 of the spec: 0.10 lots, minimum and step 0.01.\<close>

definition scenario_position :: PositionInfo where
  "scenario_position =
     \<lparr>pi_position_ticket = 1, pi_symbol = ''EURUSD'', pi_direction = Buy, pi_volume = 0.10,
      pi_price_open = 1.1, pi_sl = None, pi_tp = None, pi_digits = 5, pi_pip_in_price = 0.0001,
      pi_volume_min = 0.01, pi_volume_step = 0.01\<rparr>"

text \<open>
  Positions whose volume, minimum and step are the doubles nearest 0.35, 8192.13 or 0.10
  lots and 0.01.
\<close>

definition lots_035 :: PositionInfo where
  "lots_035 = scenario_position\<lparr>pi_volume := binary64 0.35, pi_volume_min := binary64 0.01,
                                 pi_volume_step := binary64 0.01\<rparr>"

definition lots_8192_13 :: PositionInfo where
  "lots_8192_13 = scenario_position\<lparr>pi_volume := binary64 8192.13, pi_volume_min := binary64 0.01,
                                     pi_volume_step := binary64 0.01\<rparr>"

definition lots_010 :: PositionInfo where
  "lots_010 = scenario_position\<lparr>pi_volume := binary64 0.10, pi_volume_min := binary64 0.01,
                                 pi_volume_step := binary64 0.01\<rparr>"

text \<open>A sell of 0.015 lots with minimum 0.01 and step 0.005, and one of exactly one step.\<close>

definition small_lot_position :: PositionInfo where
  "small_lot_position =
     \<lparr>pi_position_ticket = 7, pi_symbol = ''EURUSD'', pi_direction = Sell, pi_volume = 0.015,
      pi_price_open = 1.1, pi_sl = None, pi_tp = None, pi_digits = 5, pi_pip_in_price = 0.0001,
      pi_volume_min = 0.01, pi_volume_step = 0.005\<rparr>"

definition one_step_position :: PositionInfo where
  "one_step_position = scenario_position\<lparr>pi_volume := 0.01\<rparr>"

text \<open>Three open gold buys of this system and three managed trades, two of them pending.\<close>

definition open_positions :: "OpenPositionInfo list" where
  "open_positions =
     [\<lparr>op_ticket = 101, op_symbol = ''XAUUSD'', op_type = 0, op_volume = 0.2, op_price_open = 2000,
       op_sl = Some 1995, op_tp = None, op_magic = 123456, op_comment = None, op_time = Some 10\<rparr>,
      \<lparr>op_ticket = 102, op_symbol = ''XAUUSD'', op_type = 0, op_volume = 0.2, op_price_open = 2001,
       op_sl = Some 1996, op_tp = None, op_magic = 123456, op_comment = None, op_time = Some 20\<rparr>,
      \<lparr>op_ticket = 103, op_symbol = ''XAUUSD'', op_type = 0, op_volume = 0.2, op_price_open = 2002,
       op_sl = Some 1997, op_tp = None, op_magic = 123456, op_comment = None, op_time = Some 30\<rparr>]"

definition managed_trades :: "ManagedTrade list" where
  "managed_trades =
     [\<lparr>mt_id = ''a'', mt_symbol = ''XAUUSD'', mt_direction = Buy, mt_order_ticket = 1,
       mt_position_ticket = None, mt_created_at = 1000\<rparr>,
      \<lparr>mt_id = ''b'', mt_symbol = ''XAUUSD'', mt_direction = Buy, mt_order_ticket = 2,
       mt_position_ticket = Some 103, mt_created_at = 900\<rparr>,
      \<lparr>mt_id = ''c'', mt_symbol = ''XAUUSD'', mt_direction = Buy, mt_order_ticket = 3,
       mt_position_ticket = None, mt_created_at = 1100\<rparr>]"

text \<open>
  The initial form of the component with a balance that is not a number, and with the pip
  value \<^verbatim>\<open>String(null)\<close> that \<^verbatim>\<open>handleSymbolChange\<close> stores for a preset without one.
\<close>

definition non_numeric_form :: CalculatorFormState where
  "non_numeric_form =
     \<lparr>f_account_balance = ''abc'', f_risk_percent = ''1.0'', f_symbol = ''EURUSD'',
      f_direction = Buy, f_entry_price = ''2000.00'', f_pending_order = False,
      f_stop_pips = ''50'', f_tp1_pips = ''30'', f_pip_value_per_1_lot = ''10''\<rparr>"

definition null_pip_value_form :: CalculatorFormState where
  "null_pip_value_form =
     \<lparr>f_account_balance = ''10000'', f_risk_percent = ''1.0'', f_symbol = ''EURUSD'',
      f_direction = Buy, f_entry_price = ''2000.00'', f_pending_order = False,
      f_stop_pips = ''50'', f_tp1_pips = ''30'', f_pip_value_per_1_lot = ''null''\<rparr>"


section \<open>Authorization and the execute handler\<close>

lemma submitted_eq:
  "submitted props symbol_presets ep sent =
     (if p_armed props
      then [\<lparr>req_url = ''/mt5/order'', req_body = orderRequest props symbol_presets\<rparr>]
      else [])"
  by (simp add: submitted_def handleExecute_def placeOrder_def apiClient_post_def Let_def)

text \<open>
  C1. The guard allows exactly when both flags are true; for each of the three other
  combinations a guarded operation answers with the authorization error and is not run, so the
  state it would mutate is untouched. An unarmed run of the execute handler of the UI adds
  no request to the log (it returns before anything else happens), and every request the
  handler does send comes from an armed run and carries the armed flag.
\<close>

theorem execution_guard_fails_closed:
  "(authorize ui be \<longleftrightarrow> ui \<and> be)
   \<and> (\<not> (ui \<and> be) \<longrightarrow> guarded ui be operation s = (Inl AuthorizationError, s))
   \<and> (\<not> p_armed props \<longrightarrow> handleExecute props symbol_presets ep sent = ([], sent))
   \<and> (\<forall>rq \<in> set (submitted props symbol_presets ep sent).
         p_armed props \<and> or_ui_armed (req_body rq))"
  by (simp add: authorize_def guarded_def handleExecute_def submitted_eq orderRequest_def)

theorem execution_guard_fails_closed_witness:
  "authorize True True
   \<and> \<not> authorize True False \<and> \<not> authorize False True \<and> \<not> authorize False False
   \<and> guarded True False (\<lambda>n::nat. ((), Suc n)) 0 = (Inl AuthorizationError, 0)
   \<and> guarded False True (\<lambda>n::nat. ((), Suc n)) 0 = (Inl AuthorizationError, 0)
   \<and> guarded False False (\<lambda>n::nat. ((), Suc n)) 0 = (Inl AuthorizationError, 0)
   \<and> \<not> p_armed gold_buy_unarmed
   \<and> handleExecute gold_buy_unarmed default_presets accepting [] = ([], [])
   \<and> map (\<lambda>rq. or_ui_armed (req_body rq)) (submitted gold_buy default_presets accepting []) = [True]"
  using execution_guard_fails_closed [of True False "\<lambda>n::nat. ((), Suc n)" 0 gold_buy_unarmed default_presets accepting "[]"]
    execution_guard_fails_closed [of False True "\<lambda>n::nat. ((), Suc n)" 0 gold_buy_unarmed default_presets accepting "[]"]
    execution_guard_fails_closed [of False False "\<lambda>n::nat. ((), Suc n)" 0 gold_buy_unarmed default_presets accepting "[]"]
    execution_guard_fails_closed [of True True "\<lambda>n::nat. ((), Suc n)" 0 gold_buy default_presets accepting "[]"]
  by (simp add: gold_buy_unarmed_def gold_buy_def submitted_eq orderRequest_def)

text \<open>
  C10. Every request the execute handler submits goes to the order endpoint with no
  take-profit price; its price is absent exactly for a market order and is the entry price
  for a pending one; its stop-loss is the entry price less stop pips times pip size for a
  buy and plus that for a sell, so with positive stop pips and pip size it lies below the
  entry of a buy and above the entry of a sell. Prices are exact reals here.
\<close>

theorem handleExecute_order_request:
  "\<forall>rq \<in> set (submitted props symbol_presets ep sent).
     req_url rq = ''/mt5/order''
     \<and> or_tp_price (req_body rq) = None
     \<and> (or_price (req_body rq) = None \<longleftrightarrow> \<not> p_pendingOrder props)
     \<and> (p_pendingOrder props \<longrightarrow> or_price (req_body rq) = Some (p_entryPrice props))
     \<and> or_sl_price (req_body rq) =
          (if p_direction props = Buy
           then p_entryPrice props - p_stopPips props * pipSize symbol_presets (p_symbol props)
           else p_entryPrice props + p_stopPips props * pipSize symbol_presets (p_symbol props))
     \<and> (p_stopPips props > 0 \<and> pipSize symbol_presets (p_symbol props) > 0 \<longrightarrow>
          (if p_direction props = Buy then or_sl_price (req_body rq) < p_entryPrice props
           else or_sl_price (req_body rq) > p_entryPrice props))"
  by (simp add: submitted_eq orderRequest_def slPrice_def)

theorem handleExecute_order_request_witness:
  "submitted gold_buy default_presets accepting []
     = [\<lparr>req_url = ''/mt5/order'',
         req_body = \<lparr>or_symbol = ''XAUUSD'', or_direction = Buy, or_volume = 0.2, or_price = None,
                     or_sl_price = 1995, or_tp_price = None, or_ui_armed = True\<rparr>\<rparr>]
   \<and> submitted (gold_buy\<lparr>p_pendingOrder := True, p_direction := Sell\<rparr>) default_presets accepting []
     = [\<lparr>req_url = ''/mt5/order'',
         req_body = \<lparr>or_symbol = ''XAUUSD'', or_direction = Sell, or_volume = 0.2,
                     or_price = Some 2000, or_sl_price = 2005, or_tp_price = None,
                     or_ui_armed = True\<rparr>\<rparr>]
   \<and> p_stopPips gold_buy > 0 \<and> pipSize default_presets (p_symbol gold_buy) > 0"
  using handleExecute_order_request [of gold_buy default_presets accepting "[]"]
    handleExecute_order_request [of "gold_buy\<lparr>p_pendingOrder := True, p_direction := Sell\<rparr>"
      default_presets accepting "[]"]
  by (simp add: submitted_eq gold_buy_def default_presets_def orderRequest_def slPrice_def pipSize_def)


section \<open>The partial-close volume\<close>

text \<open>
  C2. With a positive minimum and step the precheck computes the number of steps as the floor
  of (requested + 1e-12) / step and the normalized volume as that many steps, and it blocks
  the request whenever the normalized volume is at most zero or below the minimum. For 0.10
  lots at 5 percent with minimum and step 0.01 the requested 0.005 normalizes to 0 and the
  request is blocked.
\<close>

theorem tp1Precheck_normalizes:
  "(pi_volume_min pos > 0 \<and> pi_volume_step pos > 0 \<longrightarrow>
     (\<exists>r. tp1Precheck (Some pos) pct = Some r
        \<and> pre_requested r = pi_volume pos * (pct / 100)
        \<and> pre_normalized r
            = real_of_int \<lfloor>(pre_requested r + 1 / 10 ^ 12) / pi_volume_step pos\<rfloor> * pi_volume_step pos
        \<and> (pre_normalized r \<le> 0 \<or> pre_normalized r < pi_volume_min pos \<longrightarrow> pre_blocked r)))
   \<and> tp1Precheck (Some scenario_position) 5
       = Some \<lparr>pre_requested = 0.005, pre_normalized = 0, pre_remaining = 0.10,
               pre_min = 0.01, pre_step = 0.01, pre_blocked = True\<rparr>"
  by (simp add: tp1Precheck_def Let_def eps_def scenario_position_def)

theorem tp1Precheck_normalizes_witness:
  "pi_volume_min scenario_position > 0 \<and> pi_volume_step scenario_position > 0
   \<and> (\<exists>r. tp1Precheck (Some scenario_position) 5 = Some r
         \<and> pre_requested r = 0.005 \<and> pre_normalized r = 0 \<and> pre_blocked r)"
  using tp1Precheck_normalizes [of scenario_position 5]
  by (simp add: scenario_position_def)

text \<open>The exponent found is the exponent, and the only one.\<close>

lemma expo_up_sandwich:
  "1 \<le> x \<Longrightarrow> 2 powi expo_up x \<le> x \<and> x < 2 powi (expo_up x + 1)"
proof (induction x rule: expo_up.induct)
  case (1 x)
  show ?case
  proof (cases "x < 2")
    case True
    then show ?thesis using "1.prems" by (simp add: expo_up.simps [of x])
  next
    case False
    then have "1 \<le> x / 2" by simp
    from "1.IH" [OF False this]
    have "2 powi expo_up (x / 2) \<le> x / 2" "x / 2 < 2 powi (expo_up (x / 2) + 1)" by simp_all
    then have "2 * 2 powi expo_up (x / 2) \<le> x" "x < 2 * 2 powi (expo_up (x / 2) + 1)" by simp_all
    then show ?thesis using False
      by (simp add: expo_up.simps [of x] power_int_add)
  qed
qed

lemma expo_down_sandwich:
  "0 < x \<Longrightarrow> x < 1 \<Longrightarrow> 2 powi expo_down x \<le> x \<and> x < 2 powi (expo_down x + 1)"
proof (induction x rule: expo_down.induct)
  case (1 x)
  have guard: "\<not> (x \<le> 0 \<or> 1 \<le> x)" using "1.prems" by simp
  show ?case
  proof (cases "2 * x < 1")
    case True
    from "1.IH" [OF guard _ True] "1.prems"
    have "2 powi expo_down (2 * x) \<le> 2 * x" "2 * x < 2 powi (expo_down (2 * x) + 1)" by simp_all
    then show ?thesis using guard
      by (simp add: expo_down.simps [of x] power_int_diff power_int_add)
  next
    case False
    then have "expo_down (2 * x) = 0" by (simp add: expo_down.simps [of "2 * x"])
    then show ?thesis using guard False "1.prems"
      by (simp add: expo_down.simps [of x])
  qed
qed

lemma expo_sandwich:
  assumes "x \<noteq> 0"
  shows "2 powi expo x \<le> \<bar>x\<bar>" "\<bar>x\<bar> < 2 powi (expo x + 1)"
  using assms expo_up_sandwich [of "\<bar>x\<bar>"] expo_down_sandwich [of "\<bar>x\<bar>"]
  by (auto simp: expo_def)


lemma pow2_less_imp_less:
  assumes "(2::real) powi a < 2 powi b"
  shows "a < b"
proof (rule ccontr)
  assume "\<not> a < b"
  then have "b \<le> a" by simp
  then have "(2::real) powi b \<le> 2 powi a" by (intro power_int_increasing) simp_all
  then show False using assms by simp
qed

lemma expo_unique:
  assumes "2 powi e \<le> \<bar>x\<bar>" "\<bar>x\<bar> < 2 powi (e + 1)"
  shows "expo x = e"
proof -
  have "(0::real) < 2 powi e" by (rule zero_less_power_int) simp
  then have "0 < \<bar>x\<bar>" using assms(1) by linarith
  then have nz: "x \<noteq> 0" by simp
  have "(2::real) powi e < 2 powi (expo x + 1)"
    using assms(1) expo_sandwich(2) [OF nz] by linarith
  then have a: "e < expo x + 1" by (rule pow2_less_imp_less)
  have "(2::real) powi expo x < 2 powi (e + 1)"
    using assms(2) expo_sandwich(1) [OF nz] by linarith
  then have b: "expo x < e + 1" by (rule pow2_less_imp_less)
  show ?thesis using a b by linarith
qed

lemma round_even_near: "\<bar>real_of_int (round_even y) - y\<bar> \<le> 1 / 2"
  unfolding round_even_def Let_def by (auto; linarith)

lemma round_even_of_int: "round_even (real_of_int n) = n"
  by (simp add: round_even_def)

lemma round_even_mono:
  assumes "y \<le> z"
  shows "round_even y \<le> round_even z"
proof (cases "\<lfloor>y\<rfloor> = \<lfloor>z\<rfloor>")
  case True
  then show ?thesis using assms unfolding round_even_def Let_def by (auto; linarith)
next
  case False
  then have "\<lfloor>y\<rfloor> + 1 \<le> \<lfloor>z\<rfloor>" using assms floor_mono [of y z] by linarith
  moreover have "round_even y \<le> \<lfloor>y\<rfloor> + 1" unfolding round_even_def Let_def by auto
  moreover have "\<lfloor>z\<rfloor> \<le> round_even z" unfolding round_even_def Let_def by auto
  ultimately show ?thesis by linarith
qed


lemma binary64_eval:
  assumes "2 powi e \<le> \<bar>x\<bar>" "\<bar>x\<bar> < 2 powi (e + 1)"
  shows "binary64 x = real_of_int (round_even (x / 2 powi (e - 52))) * 2 powi (e - 52)"
proof -
  have "(0::real) < 2 powi e" by (rule zero_less_power_int) simp
  then have "0 < \<bar>x\<bar>" using assms(1) by linarith
  then have "x \<noteq> 0" by simp
  then show ?thesis using expo_unique [OF assms] by (simp add: binary64_def)
qed

lemma ulp_pos: "(0::real) < 2 powi (e - 52)"
  by (rule zero_less_power_int) simp

lemma ulp_scale: "(2::real) powi e = 2 ^ 52 * 2 powi (e - 52)"
proof -
  have "e = 52 + (e - 52)" by simp
  then have "(2::real) powi e = 2 powi (52 + (e - 52))" by (rule arg_cong)
  also have "\<dots> = 2 powi 52 * 2 powi (e - 52)" by (subst power_int_add) simp_all
  finally show ?thesis by simp
qed

lemma ulp_scale_up: "(2::real) powi (e + 1) = 2 ^ 53 * 2 powi (e - 52)"
proof -
  have "e + 1 = 53 + (e - 52)" by simp
  then have "(2::real) powi (e + 1) = 2 powi (53 + (e - 52))" by (rule arg_cong)
  also have "\<dots> = 2 powi 53 * 2 powi (e - 52)" by (subst power_int_add) simp_all
  finally show ?thesis by simp
qed

lemma binary64_rel: "\<bar>binary64 x - x\<bar> \<le> \<bar>x\<bar> / 2 ^ 53"
proof (cases "x = 0")
  case True
  then show ?thesis by (simp add: binary64_def)
next
  case False
  let ?u = "(2::real) powi (expo x - 52)"
  have u: "0 < ?u" by (rule ulp_pos)
  have "binary64 x - x = (real_of_int (round_even (x / ?u)) - x / ?u) * ?u"
    using False u by (simp add: binary64_def algebra_simps)
  then have "\<bar>binary64 x - x\<bar> = \<bar>real_of_int (round_even (x / ?u)) - x / ?u\<bar> * ?u"
    using u by (simp add: abs_mult)
  also have "\<dots> \<le> (1 / 2) * ?u"
    using u round_even_near [of "x / ?u"] by (intro mult_right_mono) simp_all
  also have "\<dots> = 2 powi expo x / 2 ^ 53"
    by (simp add: ulp_scale [of "expo x"])
  also have "\<dots> \<le> \<bar>x\<bar> / 2 ^ 53"
    using expo_sandwich(1) [OF False] by (simp add: divide_right_mono)
  finally show ?thesis .
qed

lemma binary64_bounds:
  assumes "0 < x"
  shows "2 powi expo x \<le> binary64 x" "binary64 x \<le> 2 powi (expo x + 1)"
proof -
  let ?u = "(2::real) powi (expo x - 52)"
  have u: "0 < ?u" by (rule ulp_pos)
  have nz: "x \<noteq> 0" using assms by simp
  have fl: "binary64 x = real_of_int (round_even (x / ?u)) * ?u"
    using nz by (simp add: binary64_def)
  have lo: "2 ^ 52 * ?u \<le> x" and hi: "x < 2 ^ 53 * ?u"
    using expo_sandwich [OF nz] assms ulp_scale [of "expo x"] ulp_scale_up [of "expo x"]
    by simp_all
  have "real_of_int (2 ^ 52) \<le> x / ?u" using lo u by (simp add: pos_le_divide_eq)
  then have "round_even (real_of_int (2 ^ 52)) \<le> round_even (x / ?u)" by (rule round_even_mono)
  then have "2 ^ 52 \<le> round_even (x / ?u)" by (simp only: round_even_of_int)
  then have "real_of_int (2 ^ 52) \<le> real_of_int (round_even (x / ?u))" by (simp only: of_int_le_iff)
  then have "real_of_int (2 ^ 52) * ?u \<le> real_of_int (round_even (x / ?u)) * ?u"
    using u by (intro mult_right_mono) simp_all
  then show "2 powi expo x \<le> binary64 x"
    using fl ulp_scale [of "expo x"] by simp
  have "x / ?u \<le> real_of_int (2 ^ 53)" using hi u by (simp add: pos_divide_le_eq)
  then have "round_even (x / ?u) \<le> round_even (real_of_int (2 ^ 53))" by (rule round_even_mono)
  then have "round_even (x / ?u) \<le> 2 ^ 53" by (simp only: round_even_of_int)
  then have "real_of_int (round_even (x / ?u)) \<le> real_of_int (2 ^ 53)" by (simp only: of_int_le_iff)
  then have "real_of_int (round_even (x / ?u)) * ?u \<le> real_of_int (2 ^ 53) * ?u"
    using u by (intro mult_right_mono) simp_all
  moreover have "(2::real) powi (expo x + 1) = 2 ^ 53 * ?u"
    by (rule ulp_scale_up)
  ultimately show "binary64 x \<le> 2 powi (expo x + 1)"
    using fl by simp
qed

lemma binary64_mono:
  assumes "0 \<le> x" "x \<le> y"
  shows "binary64 x \<le> binary64 y"
proof (cases "x = 0")
  case True
  have "\<bar>binary64 y - y\<bar> \<le> \<bar>y\<bar> / 2 ^ 53" by (rule binary64_rel)
  moreover have "\<bar>y\<bar> / 2 ^ 53 \<le> \<bar>y\<bar>" by (simp add: field_simps)
  ultimately have "0 \<le> binary64 y" using assms by linarith
  then show ?thesis using True by (simp add: binary64_def)
next
  case False
  then have x: "0 < x" and y: "0 < y" using assms by simp_all
  have "(2::real) powi expo x < 2 powi (expo y + 1)"
    using expo_sandwich [of x] expo_sandwich [of y] x y assms(2) by simp
  then have le: "expo x \<le> expo y" using pow2_less_imp_less by fastforce
  show ?thesis
  proof (cases "expo x = expo y")
    case True
    let ?u = "(2::real) powi (expo y - 52)"
    have u: "0 < ?u" by (rule ulp_pos)
    have "x / ?u \<le> y / ?u" using assms(2) u by (simp add: divide_right_mono)
    then have "round_even (x / ?u) \<le> round_even (y / ?u)" by (rule round_even_mono)
    then have "real_of_int (round_even (x / ?u)) * ?u \<le> real_of_int (round_even (y / ?u)) * ?u"
      using u by (intro mult_right_mono) simp_all
    then show ?thesis using True x y by (simp add: binary64_def)
  next
    case False
    then have "expo x + 1 \<le> expo y" using le by simp
    then have "(2::real) powi (expo x + 1) \<le> 2 powi expo y"
      by (intro power_int_increasing) simp_all
    then show ?thesis
      using binary64_bounds(2) [OF x] binary64_bounds(1) [OF y] by linarith
  qed
qed

lemma binary64_1: "binary64 1 = 1"
proof -
  have "binary64 1 = real_of_int (round_even (1 / 2 powi (0 - 52))) * 2 powi (0 - 52)"
    by (rule binary64_eval) simp_all
  then show ?thesis by (simp add: round_even_def)
qed

lemma binary64_standard: "standard_rounding binary64 (1 / 2 ^ 53)"
  unfolding standard_rounding_def
proof (intro conjI allI impI)
  show "\<bar>binary64 x - x\<bar> \<le> 1 / 2 ^ 53 * \<bar>x\<bar>" for x
    using binary64_rel [of x] by simp
qed (simp_all add: binary64_1 binary64_mono)

lemma tp1Precheck_fl_exact: "tp1Precheck_fl (\<lambda>x. x) position pct = tp1Precheck position pct"
  by (simp add: tp1Precheck_fl_def tp1Precheck_def)

lemma rounding_facts:
  assumes "standard_rounding fl u"
  shows "0 \<le> u" "u < 1" "fl 1 = 1"
    "\<And>x y. 0 \<le> x \<Longrightarrow> x \<le> y \<Longrightarrow> fl x \<le> fl y"
    "\<And>x. 0 \<le> x \<Longrightarrow> 0 \<le> fl x"
    "\<And>x. 0 \<le> x \<Longrightarrow> fl x \<le> (1 + u) * x"
    "\<And>x. 0 < x \<Longrightarrow> 0 < fl x"
    "\<And>x. x \<le> 0 \<Longrightarrow> fl x \<le> 0"
    "\<And>x. x \<le> 0 \<Longrightarrow> (1 + u) * x \<le> fl x"
proof -
  show u: "0 \<le> u" "u < 1" and "fl 1 = 1"
    using assms by (simp_all add: standard_rounding_def)
  show "\<And>x y. 0 \<le> x \<Longrightarrow> x \<le> y \<Longrightarrow> fl x \<le> fl y"
    using assms by (simp add: standard_rounding_def)
  have rel: "\<bar>fl x - x\<bar> \<le> u * \<bar>x\<bar>" for x
    using assms by (simp add: standard_rounding_def)
  show "0 \<le> fl x" if "0 \<le> x" for x
  proof -
    have "u * x \<le> 1 * x" using u that by (intro mult_right_mono) simp_all
    then have "u * x \<le> x" by simp
    moreover have "\<bar>fl x - x\<bar> \<le> u * x" using rel [of x] that by simp
    ultimately show ?thesis by linarith
  qed
  show "fl x \<le> (1 + u) * x" if "0 \<le> x" for x
  proof -
    have "\<bar>fl x - x\<bar> \<le> u * x" using rel [of x] that by simp
    then show ?thesis by (simp add: algebra_simps)
  qed
  show "0 < fl x" if "0 < x" for x
  proof -
    have "u * x < 1 * x" using u that by (intro mult_strict_right_mono) simp_all
    then have "u * x < x" by simp
    moreover have "\<bar>fl x - x\<bar> \<le> u * x" using rel [of x] that by simp
    ultimately show ?thesis by linarith
  qed
  show "fl x \<le> 0" if "x \<le> 0" for x
  proof -
    have "u * (- x) \<le> 1 * (- x)" using u that by (intro mult_right_mono) simp_all
    then have "u * (- x) \<le> - x" by simp
    moreover have "\<bar>fl x - x\<bar> \<le> u * (- x)" using rel [of x] that by simp
    ultimately show ?thesis by linarith
  qed
  show "(1 + u) * x \<le> fl x" if "x \<le> 0" for x
  proof -
    have "\<bar>fl x - x\<bar> \<le> u * (- x)" using rel [of x] that by simp
    then show ?thesis by (simp add: algebra_simps)
  qed
qed

lemma normalized_bound:
  assumes r: "standard_rounding fl u"
      and "fl owned = owned" "0 < owned" "0 < pct" "pct \<le> 100" "0 < step"
  shows "fl (real_of_int \<lfloor>fl (fl (fl (owned * fl (pct / 100)) + fl eps) / step)\<rfloor> * step)
           \<le> (owned + fl eps) * (1 + u) ^ 3"
proof -
  note f = rounding_facts [OF r]
  let ?c = "fl (pct / 100)"
  let ?req = "fl (owned * ?c)"
  let ?s = "fl (?req + fl eps)"
  let ?q = "fl (?s / step)"
  let ?k = "real_of_int \<lfloor>?q\<rfloor>"
  have u1: "0 \<le> 1 + u" "1 \<le> 1 + u" using f(1) by simp_all
  have c: "0 \<le> ?c" "?c \<le> 1"
    using f(5) [of "pct / 100"] f(4) [of "pct / 100" 1] f(3) assms(4,5) by simp_all
  have "owned * ?c \<le> owned * 1" using c assms(3) by (intro mult_left_mono) simp_all
  moreover have "0 \<le> owned * ?c" using c assms(3) by simp
  ultimately have req: "0 \<le> ?req" "?req \<le> owned"
    using f(5) [of "owned * ?c"] f(4) [of "owned * ?c" owned] assms(2) by simp_all
  have e: "0 \<le> fl eps" using f(5) [of eps] by (simp add: eps_def)
  have s: "0 \<le> ?s" "?s \<le> (1 + u) * (owned + fl eps)"
  proof -
    show "0 \<le> ?s" using f(5) [of "?req + fl eps"] req e by simp
    have "?s \<le> fl (owned + fl eps)"
      using f(4) [of "?req + fl eps" "owned + fl eps"] req e by simp
    also have "\<dots> \<le> (1 + u) * (owned + fl eps)"
      using f(6) [of "owned + fl eps"] assms(3) e by simp
    finally show "?s \<le> (1 + u) * (owned + fl eps)" .
  qed
  have q: "0 \<le> ?q" "?q * step \<le> (1 + u) * ?s"
  proof -
    have d: "0 \<le> ?s / step" using s assms(6) by simp
    show "0 \<le> ?q" using f(5) [OF d] .
    have "?q \<le> (1 + u) * (?s / step)" using f(6) [OF d] .
    then have "?q * step \<le> (1 + u) * (?s / step) * step"
      using assms(6) by (intro mult_right_mono) simp_all
    then show "?q * step \<le> (1 + u) * ?s" using assms(6) by simp
  qed
  have k: "0 \<le> ?k" "?k \<le> ?q" using q(1) by simp_all
  have ks: "0 \<le> ?k * step" "?k * step \<le> ?q * step"
    using k assms(6) by (simp_all add: mult_right_mono)
  have "fl (?k * step) \<le> (1 + u) * (?k * step)" using f(6) [OF ks(1)] .
  also have "\<dots> \<le> (1 + u) * (?q * step)"
    using ks(2) u1 by (intro mult_left_mono) simp_all
  also have "\<dots> \<le> (1 + u) * ((1 + u) * ?s)"
    using q(2) u1 by (intro mult_left_mono) simp_all
  also have "\<dots> \<le> (1 + u) * ((1 + u) * ((1 + u) * (owned + fl eps)))"
    using s(2) u1 by (intro mult_left_mono) simp_all
  also have "\<dots> = (owned + fl eps) * (1 + u) ^ 3"
    by (simp add: power3_eq_cube algebra_simps)
  finally show ?thesis .
qed

text \<open>
  Whatever the rounding, the flag is set by the same four comparisons: the statements of C2
  and C4 about blocking carry over to double arithmetic as they stand.
\<close>

lemma tp1Precheck_fl_blocks:
  assumes "tp1Precheck_fl fl (Some pos) pct = Some r"
  shows "(pre_normalized r \<le> 0 \<or> pre_normalized r < pi_volume_min pos \<longrightarrow> pre_blocked r)
     \<and> (0 < pre_remaining r \<and> pre_remaining r < pi_volume_min pos \<longrightarrow> pre_blocked r)
     \<and> (pct < 100 \<and> pi_volume pos \<le> pre_normalized r \<longrightarrow> pre_blocked r)"
  using assms by (auto simp: tp1Precheck_fl_def Let_def)

text \<open>
  The doubles of the three examples, operation by operation: the decimal inputs, then
  requested, the sum with 1e-12, the quotient by the step, the product of steps and step,
  and the remainder.
\<close>

lemma double_01: "binary64 (7 / 20) = 3152519739159347 / 9007199254740992"
  by (subst binary64_eval [of "- 2"]) (simp_all add: round_even_def)

lemma double_02: "binary64 (1 / 100) = 5764607523034235 / 576460752303423488"
  by (subst binary64_eval [of "- 7"]) (simp_all add: round_even_def)

lemma double_03: "binary64 (1 / 1000000000000) = 4951760157141521 / 4951760157141521099596496896"
  by (subst binary64_eval [of "- 40"]) (simp_all add: round_even_def)

lemma double_04: "binary64 (3152519739159347 / 9007199254740992) = 3152519739159347 / 9007199254740992"
  by (subst binary64_eval [of "- 2"]) (simp_all add: round_even_def)

lemma double_05: "binary64 (1733116055004484035064752657 / 4951760157141521099596496896) = 1576259869584177 / 4503599627370496"
  by (subst binary64_eval [of "- 2"]) (simp_all add: round_even_def)

lemma double_06: "binary64 (201761263306774656 / 5764607523034235) = 4925812092450553 / 140737488355328"
  by (subst binary64_eval [of "5"]) (simp_all add: round_even_def)

lemma double_07: "binary64 (201761263306198225 / 576460752303423488) = 6305039478318695 / 18014398509481984"
  by (subst binary64_eval [of "- 2"]) (simp_all add: round_even_def)

lemma double_08: "binary64 (- (1 / 18014398509481984)) = - (1 / 18014398509481984)"
  by (subst binary64_eval [of "- 54"]) (simp_all add: round_even_def)

lemma double_09: "binary64 (819213 / 100) = 4503671095626301 / 549755813888"
  by (subst binary64_eval [of "13"]) (simp_all add: round_even_def)

lemma double_10: "binary64 (4503671095626301 / 549755813888) = 4503671095626301 / 549755813888"
  by (subst binary64_eval [of "13"]) (simp_all add: round_even_def)

lemma double_11: "binary64 (40565462936123770234229935172113 / 4951760157141521099596496896) = 2251835547813151 / 274877906944"
  by (subst binary64_eval [of "13"]) (simp_all add: round_even_def)

lemma double_12: "binary64 (4722441422767445245952 / 5764607523034235) = 7036986086916097 / 8589934592"
  by (subst binary64_eval [of "19"]) (simp_all add: round_even_def)

lemma double_13: "binary64 (4722441422767444757055 / 576460752303423488) = 2251835547813151 / 274877906944"
  by (subst binary64_eval [of "13"]) (simp_all add: round_even_def)

lemma double_14: "binary64 (- (1 / 549755813888)) = - (1 / 549755813888)"
  by (subst binary64_eval [of "- 39"]) (simp_all add: round_even_def)

lemma double_15: "binary64 (1 / 10) = 3602879701896397 / 36028797018963968"
  by (subst binary64_eval [of "- 4"]) (simp_all add: round_even_def)

lemma double_16: "binary64 (1 / 2) = 1 / 2"
  by (subst binary64_eval [of "- 1"]) (simp_all add: round_even_def)

lemma double_17: "binary64 (3602879701896397 / 72057594037927936) = 3602879701896397 / 72057594037927936"
  by (subst binary64_eval [of "- 5"]) (simp_all add: round_even_def)

lemma double_18: "binary64 (247588007862027828880861713 / 4951760157141521099596496896) = 7205759403936909 / 144115188075855872"
  by (subst binary64_eval [of "- 5"]) (simp_all add: round_even_def)

lemma double_19: "binary64 (28823037615747636 / 5764607523034235) = 2814749767162855 / 562949953421312"
  by (subst binary64_eval [of "2"]) (simp_all add: round_even_def)

lemma double_20: "binary64 (28823037615171175 / 576460752303423488) = 3602879701896397 / 72057594037927936"
  by (subst binary64_eval [of "- 5"]) (simp_all add: round_even_def)

lemma double_21: "binary64 (3602879701896397 / 36028797018963968) = 3602879701896397 / 36028797018963968"
  by (subst binary64_eval [of "- 4"]) (simp_all add: round_even_def)

lemmas doubles = binary64_1 double_01 double_02 double_03 double_04 double_05 double_06 double_07 double_08 double_09 double_10 double_11 double_12 double_13 double_14 double_15 double_16 double_17 double_18 double_19 double_20 double_21

lemma precheck_lots_035:
  "tp1Precheck_fl binary64 (Some lots_035) 100
     = Some \<lparr>pre_requested = 3152519739159347 / 9007199254740992,
             pre_normalized = 6305039478318695 / 18014398509481984,
             pre_remaining = - (1 / 18014398509481984),
             pre_min = 5764607523034235 / 576460752303423488,
             pre_step = 5764607523034235 / 576460752303423488,
             pre_blocked = False\<rparr>"
  by (simp add: tp1Precheck_fl_def Let_def lots_035_def scenario_position_def eps_def doubles)

lemma precheck_lots_8192_13:
  "tp1Precheck_fl binary64 (Some lots_8192_13) 100
     = Some \<lparr>pre_requested = 4503671095626301 / 549755813888,
             pre_normalized = 2251835547813151 / 274877906944,
             pre_remaining = - (1 / 549755813888),
             pre_min = 5764607523034235 / 576460752303423488,
             pre_step = 5764607523034235 / 576460752303423488,
             pre_blocked = False\<rparr>"
  by (simp add: tp1Precheck_fl_def Let_def lots_8192_13_def scenario_position_def eps_def doubles)

lemma precheck_lots_010:
  "tp1Precheck_fl binary64 (Some lots_010) 50
     = Some \<lparr>pre_requested = 3602879701896397 / 72057594037927936,
             pre_normalized = 3602879701896397 / 72057594037927936,
             pre_remaining = 3602879701896397 / 72057594037927936,
             pre_min = 5764607523034235 / 576460752303423488,
             pre_step = 5764607523034235 / 576460752303423488,
             pre_blocked = False\<rparr>"
  by (simp add: tp1Precheck_fl_def Let_def lots_010_def scenario_position_def eps_def doubles)

text \<open>
  C3 as stated fails in the arithmetic of the code. A position of 0.35 lots closed at 100
  percent with minimum and step 0.01 is not blocked; 35 steps of the double 0.01 round to
  the double above the double 0.35, so the remainder is \<^term>\<open>- (1 / 2 ^ 54) :: real\<close>, neither 0
  nor in [volume_min, owned). At 8192.13 lots the normalized volume exceeds the owned volume
  by \<^term>\<open>1 / 2 ^ 39 :: real\<close>, more than 1e-12.
\<close>

theorem partial_close_remainder_counterexample:
  "0 < pi_volume lots_035 \<and> (0::real) < 100 \<and> (100::real) \<le> 100
   \<and> 0 < pi_volume_min lots_035 \<and> 0 < pi_volume_step lots_035
   \<and> \<not> pre_blocked (the (tp1Precheck_fl binary64 (Some lots_035) 100))
   \<and> pre_remaining (the (tp1Precheck_fl binary64 (Some lots_035) 100)) = - (1 / 2 ^ 54)
   \<and> pre_remaining (the (tp1Precheck_fl binary64 (Some lots_035) 100))
        \<notin> {0} \<union> {pi_volume_min lots_035 ..< pi_volume lots_035}
   \<and> 0 < pi_volume lots_8192_13
   \<and> 0 < pi_volume_min lots_8192_13 \<and> 0 < pi_volume_step lots_8192_13
   \<and> pre_normalized (the (tp1Precheck_fl binary64 (Some lots_8192_13) 100))
        = pi_volume lots_8192_13 + 1 / 2 ^ 39
   \<and> pi_volume lots_8192_13 + eps
        < pre_normalized (the (tp1Precheck_fl binary64 (Some lots_8192_13) 100))"
proof -
  have va: "pi_volume lots_035 = 3152519739159347 / 9007199254740992"
    "pi_volume_min lots_035 = 5764607523034235 / 576460752303423488"
    "pi_volume_step lots_035 = 5764607523034235 / 576460752303423488"
    by (simp_all add: lots_035_def scenario_position_def doubles)
  have vb: "pi_volume lots_8192_13 = 4503671095626301 / 549755813888"
    "pi_volume_min lots_8192_13 = 5764607523034235 / 576460752303423488"
    "pi_volume_step lots_8192_13 = 5764607523034235 / 576460752303423488"
    by (simp_all add: lots_8192_13_def scenario_position_def doubles)
  show ?thesis
    by (simp add: precheck_lots_035 precheck_lots_8192_13 va vb eps_def)
qed

text \<open>
  C3, amended. Let every operation be rounded monotonically with relative error at most u,
  as doubles are with u = 2^-53 short of overflow and underflow, and let the owned volume be
  representable and positive, the percentage in (0, 100], the minimum and step positive.
  Then the normalized volume is at most (owned + e)(1 + u)^3, where e is the rounded 1e-12;
  and whenever the request is not blocked the remainder is at most the owned volume, and
  either the normalized volume is below the owned volume and the remainder at least the
  minimum, or the percentage is 100, the normalized volume has reached the owned volume and
  the remainder lies between -(1 + u)((owned + e)(1 + u)^3 - owned) and 0.
\<close>

theorem partial_close_remainder_bounds:
  assumes r: "standard_rounding fl u"
      and d: "fl (pi_volume pos) = pi_volume pos"
      and "pi_volume pos > 0" "0 < pct" "pct \<le> 100"
      and "pi_volume_min pos > 0" "pi_volume_step pos > 0"
      and p: "tp1Precheck_fl fl (Some pos) pct = Some r"
  shows "pre_normalized r \<le> (pi_volume pos + fl eps) * (1 + u) ^ 3
     \<and> (\<not> pre_blocked r \<longrightarrow>
           pre_remaining r \<le> pi_volume pos
           \<and> ((pct = 100 \<and> pi_volume pos \<le> pre_normalized r \<and> pre_remaining r \<le> 0
                 \<and> - ((1 + u) * ((pi_volume pos + fl eps) * (1 + u) ^ 3 - pi_volume pos))
                       \<le> pre_remaining r)
               \<or> (pre_normalized r < pi_volume pos \<and> pi_volume_min pos \<le> pre_remaining r)))"
proof -
  note f = rounding_facts [OF r]
  let ?o = "pi_volume pos"
  let ?n = "fl (real_of_int \<lfloor>fl (fl (fl (?o * fl (pct / 100)) + fl eps) / pi_volume_step pos)\<rfloor>
                * pi_volume_step pos)"
  let ?B = "(?o + fl eps) * (1 + u) ^ 3"
  have v: "pre_normalized r = ?n" "pre_remaining r = fl (?o - ?n)"
       "pre_blocked r = (?n \<le> 0 \<or> ?n < pi_volume_min pos
          \<or> (fl (?o - ?n) > 0 \<and> fl (?o - ?n) < pi_volume_min pos)
          \<or> (pct < 100 \<and> ?n \<ge> ?o))"
    using assms(7) p by (auto simp: tp1Precheck_fl_def Let_def)
  have nb: "?n \<le> ?B"
    using r d assms(3,4,5,7) by (rule normalized_bound)
  have over: "?o \<le> ?n \<Longrightarrow> fl (?o - ?n) \<le> 0 \<and> - ((1 + u) * (?B - ?o)) \<le> fl (?o - ?n)"
  proof -
    assume a: "?o \<le> ?n"
    then have neg: "?o - ?n \<le> 0" by simp
    have "(1 + u) * (?o - ?B) \<le> (1 + u) * (?o - ?n)"
      using nb f(1) by (intro mult_left_mono) simp_all
    also have "\<dots> \<le> fl (?o - ?n)" using f(9) [OF neg] .
    finally have "- ((1 + u) * (?B - ?o)) \<le> fl (?o - ?n)" by (simp add: algebra_simps)
    then show ?thesis using f(8) [OF neg] by simp
  qed
  have under: "?n < ?o \<Longrightarrow> 0 < fl (?o - ?n)"
    using f(7) [of "?o - ?n"] by simp
  have le_owned: "0 < ?n \<Longrightarrow> fl (?o - ?n) \<le> ?o"
  proof -
    assume a: "0 < ?n"
    show ?thesis
    proof (cases "?n \<le> ?o")
      case True
      then have "fl (?o - ?n) \<le> fl ?o" using a by (intro f(4)) simp_all
      then show ?thesis using d by simp
    next
      case False
      then have "fl (?o - ?n) \<le> 0" using f(8) [of "?o - ?n"] by simp
      then show ?thesis using assms(3) by linarith
    qed
  qed
  show ?thesis
    unfolding v using nb over under le_owned assms(5) by (cases "?o \<le> ?n") auto
qed

theorem partial_close_remainder_bounds_witness:
  "standard_rounding binary64 (1 / 2 ^ 53)
   \<and> binary64 (pi_volume lots_035) = pi_volume lots_035
   \<and> 0 < pi_volume lots_035 \<and> (0::real) < 100 \<and> (100::real) \<le> 100
   \<and> 0 < pi_volume_min lots_035 \<and> 0 < pi_volume_step lots_035
   \<and> tp1Precheck_fl binary64 (Some lots_035) 100
       = Some \<lparr>pre_requested = 3152519739159347 / 9007199254740992,
               pre_normalized = 6305039478318695 / 18014398509481984,
               pre_remaining = - (1 / 18014398509481984),
               pre_min = 5764607523034235 / 576460752303423488,
               pre_step = 5764607523034235 / 576460752303423488,
               pre_blocked = False\<rparr>
   \<and> pi_volume lots_035 \<le> 6305039478318695 / 18014398509481984
   \<and> 6305039478318695 / 18014398509481984
        \<le> (pi_volume lots_035 + binary64 eps) * (1 + 1 / 2 ^ 53) ^ 3
   \<and> - ((1 + 1 / 2 ^ 53) * ((pi_volume lots_035 + binary64 eps) * (1 + 1 / 2 ^ 53) ^ 3
                                - pi_volume lots_035))
        \<le> - (1 / 18014398509481984)
   \<and> binary64 (pi_volume lots_010) = pi_volume lots_010
   \<and> 0 < pi_volume lots_010 \<and> (0::real) < 50 \<and> (50::real) \<le> 100
   \<and> 0 < pi_volume_min lots_010 \<and> 0 < pi_volume_step lots_010
   \<and> tp1Precheck_fl binary64 (Some lots_010) 50
       = Some \<lparr>pre_requested = 3602879701896397 / 72057594037927936,
               pre_normalized = 3602879701896397 / 72057594037927936,
               pre_remaining = 3602879701896397 / 72057594037927936,
               pre_min = 5764607523034235 / 576460752303423488,
               pre_step = 5764607523034235 / 576460752303423488,
               pre_blocked = False\<rparr>
   \<and> 3602879701896397 / 72057594037927936 < pi_volume lots_010
   \<and> pi_volume_min lots_010 \<le> 3602879701896397 / 72057594037927936"
proof -
  have std: "standard_rounding binary64 (1 / 2 ^ 53)" by (rule binary64_standard)
  have a: "binary64 (pi_volume lots_035) = pi_volume lots_035" "0 < pi_volume lots_035"
    "0 < pi_volume_min lots_035" "0 < pi_volume_step lots_035"
    by (simp_all add: lots_035_def scenario_position_def doubles)
  have b: "binary64 (pi_volume lots_010) = pi_volume lots_010" "0 < pi_volume lots_010"
    "0 < pi_volume_min lots_010" "0 < pi_volume_step lots_010"
    by (simp_all add: lots_010_def scenario_position_def doubles)
  have e: "binary64 eps = 4951760157141521 / 4951760157141521099596496896"
    by (simp add: eps_def doubles)
  have va: "pi_volume lots_035 = 3152519739159347 / 9007199254740992"
    "pi_volume_min lots_035 = 5764607523034235 / 576460752303423488"
    by (simp_all add: lots_035_def scenario_position_def doubles)
  have vb: "pi_volume lots_010 = 3602879701896397 / 36028797018963968"
    "pi_volume_min lots_010 = 5764607523034235 / 576460752303423488"
    by (simp_all add: lots_010_def scenario_position_def doubles)
  show ?thesis
    using partial_close_remainder_bounds [OF std a(1) a(2) _ _ a(3) a(4) precheck_lots_035]
      partial_close_remainder_bounds [OF std b(1) b(2) _ _ b(3) b(4) precheck_lots_010] std
    by (simp add: precheck_lots_035 precheck_lots_010 e va vb a(4) b(4) doubles)
qed

text \<open>
  C4. A request whose remainder is positive and below the minimum is blocked and reports the
  reason \<^const>\<open>RemainingBelowMin\<close>, a reason of its own: the reasons for a normalized
  volume that is zero or below the minimum are reported exactly when the normalized volume
  is so, whatever the remainder. A request below 100 percent whose normalized volume reaches
  the owned volume is blocked and reports \<^const>\<open>WouldCloseFull\<close>. The precheck blocks
  exactly when some reason applies.
\<close>

theorem dust_and_full_close_blocked:
  assumes "tp1Precheck (Some pos) pct = Some r"
  shows "(0 < pi_volume pos - pre_normalized r \<and> pi_volume pos - pre_normalized r < pi_volume_min pos
            \<longrightarrow> pre_blocked r \<and> RemainingBelowMin \<in> set (blocked_reasons (pi_volume pos) pct r)
                \<and> (NormalizedZero \<in> set (blocked_reasons (pi_volume pos) pct r)
                      \<longleftrightarrow> pre_normalized r \<le> 0)
                \<and> (NormalizedBelowMin \<in> set (blocked_reasons (pi_volume pos) pct r)
                      \<longleftrightarrow> pre_normalized r < pi_volume_min pos))
       \<and> (pct < 100 \<and> pre_normalized r \<ge> pi_volume pos
            \<longrightarrow> pre_blocked r \<and> WouldCloseFull \<in> set (blocked_reasons (pi_volume pos) pct r))
       \<and> (pre_blocked r \<longleftrightarrow> blocked_reasons (pi_volume pos) pct r \<noteq> [])"
  using assms by (auto simp: tp1Precheck_def Let_def blocked_reasons_def)

theorem dust_and_full_close_blocked_witness:
  "tp1Precheck (Some small_lot_position) 70
     = Some \<lparr>pre_requested = 0.0105, pre_normalized = 0.01, pre_remaining = 0.005,
             pre_min = 0.01, pre_step = 0.005, pre_blocked = True\<rparr>
   \<and> blocked_reasons (pi_volume small_lot_position) 70
        \<lparr>pre_requested = 0.0105, pre_normalized = 0.01, pre_remaining = 0.005,
         pre_min = 0.01, pre_step = 0.005, pre_blocked = True\<rparr> = [RemainingBelowMin]
   \<and> tp1Precheck (Some one_step_position) (100 - 1 / 10 ^ 10)
     = Some \<lparr>pre_requested = 0.01 - 1 / 10 ^ 14, pre_normalized = 0.01, pre_remaining = 0,
             pre_min = 0.01, pre_step = 0.01, pre_blocked = True\<rparr>
   \<and> blocked_reasons (pi_volume one_step_position) (100 - 1 / 10 ^ 10)
        \<lparr>pre_requested = 0.01 - 1 / 10 ^ 14, pre_normalized = 0.01, pre_remaining = 0,
         pre_min = 0.01, pre_step = 0.01, pre_blocked = True\<rparr> = [WouldCloseFull]"
  using dust_and_full_close_blocked [of small_lot_position 70
      "\<lparr>pre_requested = 0.0105, pre_normalized = 0.01, pre_remaining = 0.005,
        pre_min = 0.01, pre_step = 0.005, pre_blocked = True\<rparr>"]
    dust_and_full_close_blocked [of one_step_position "100 - 1 / 10 ^ 10"
      "\<lparr>pre_requested = 0.01 - 1 / 10 ^ 14, pre_normalized = 0.01, pre_remaining = 0,
        pre_min = 0.01, pre_step = 0.01, pre_blocked = True\<rparr>"]
  by (simp add: tp1Precheck_def Let_def eps_def small_lot_position_def one_step_position_def
        scenario_position_def blocked_reasons_def)


section \<open>The TP1 price and its trigger\<close>

lemma Math_round_near: "\<bar>real_of_int (Math_round x) - x\<bar> \<le> 1 / 2"
  unfolding Math_round_def by linarith

lemma round_to_digits_near:
  fixes x f :: real
  assumes "f > 0"
  shows "\<bar>real_of_int (Math_round (x * f)) / f - x\<bar> \<le> 1 / (2 * f)"
proof -
  have "real_of_int (Math_round (x * f)) / f - x = (real_of_int (Math_round (x * f)) - x * f) / f"
    using assms by (simp add: field_simps)
  then have "\<bar>real_of_int (Math_round (x * f)) / f - x\<bar>
      = \<bar>real_of_int (Math_round (x * f)) - x * f\<bar> / f"
    using assms by simp
  also have "\<dots> \<le> (1 / 2) / f"
    using assms Math_round_near [of "x * f"] by (intro divide_right_mono) simp_all
  finally show ?thesis by simp
qed

text \<open>
  C5. The TP1 price of a position is the entry price plus TP1 pips times the pip for a buy,
  minus that for a sell, scaled by ten to the price digits, rounded to the nearest integer
  and scaled back, so it is within half a unit of the last digit of the unrounded level. The
  trigger shown holds for a buy when the bid is at least the TP1 price and for a sell when
  the ask is at most it. The first registration of a position caches that price, and a
  later registration of the same ticket, with whatever pips, leaves the cached price as it is.
\<close>

theorem tp1_price_and_trigger:
  "tp1Price (Some pos) (Some pips)
     = Some (real_of_int (Math_round
              ((if pi_direction pos = Buy then pi_price_open pos + pips * pi_pip_in_price pos
                else pi_price_open pos - pips * pi_pip_in_price pos) * 10 ^ pi_digits pos))
            / 10 ^ pi_digits pos)
   \<and> \<bar>the (tp1Price (Some pos) (Some pips))
        - (if pi_direction pos = Buy then pi_price_open pos + pips * pi_pip_in_price pos
           else pi_price_open pos - pips * pi_pip_in_price pos)\<bar> \<le> 1 / (2 * 10 ^ pi_digits pos)
   \<and> trigger_holds (triggerLabel pos) bid ask tp1
        = (if pi_direction pos = Buy then bid \<ge> tp1 else ask \<le> tp1)
   \<and> (watched (pi_position_ticket pos) = None \<and> pi_position_ticket pos' = pi_position_ticket pos
        \<longrightarrow> register_watch watched pos pips (pi_position_ticket pos)
              = tp1Price (Some pos) (Some pips)
            \<and> register_watch (register_watch watched pos pips) pos' pips' (pi_position_ticket pos)
              = tp1Price (Some pos) (Some pips))"
proof -
  have eq: "tp1Price (Some pos) (Some pips)
     = Some (real_of_int (Math_round
              ((if pi_direction pos = Buy then pi_price_open pos + pips * pi_pip_in_price pos
                else pi_price_open pos - pips * pi_pip_in_price pos) * 10 ^ pi_digits pos))
            / 10 ^ pi_digits pos)"
    by (simp add: tp1Price_def Let_def)
  have near: "\<bar>the (tp1Price (Some pos) (Some pips))
        - (if pi_direction pos = Buy then pi_price_open pos + pips * pi_pip_in_price pos
           else pi_price_open pos - pips * pi_pip_in_price pos)\<bar> \<le> 1 / (2 * 10 ^ pi_digits pos)"
    unfolding eq option.sel by (rule round_to_digits_near) simp
  have trig: "trigger_holds (triggerLabel pos) bid ask tp1
        = (if pi_direction pos = Buy then bid \<ge> tp1 else ask \<le> tp1)"
    by (simp add: trigger_holds_def triggerLabel_def)
  have once: "watched (pi_position_ticket pos) = None \<and> pi_position_ticket pos' = pi_position_ticket pos
        \<longrightarrow> register_watch watched pos pips (pi_position_ticket pos)
              = tp1Price (Some pos) (Some pips)
            \<and> register_watch (register_watch watched pos pips) pos' pips' (pi_position_ticket pos)
              = tp1Price (Some pos) (Some pips)"
    by (simp add: register_watch_def tp1Price_def Let_def)
  show ?thesis using eq near trig once by blast
qed

theorem tp1_price_and_trigger_witness:
  "tp1Price (Some scenario_position) (Some 30) = Some 1.103
   \<and> tp1Price (Some small_lot_position) (Some 30) = Some 1.097
   \<and> trigger_holds (triggerLabel scenario_position) 1.1035 1.1036 1.103
   \<and> \<not> trigger_holds (triggerLabel small_lot_position) 1.0975 1.0976 1.097
   \<and> Map.empty (pi_position_ticket scenario_position) = (None :: real option)
   \<and> pi_position_ticket scenario_position = pi_position_ticket scenario_position
   \<and> register_watch (register_watch Map.empty scenario_position 30) scenario_position 45
        (pi_position_ticket scenario_position) = Some 1.103"
  using tp1_price_and_trigger [of scenario_position 30 "1.1035" "1.1036" "1.103" Map.empty
      scenario_position 45]
    tp1_price_and_trigger [of small_lot_position 30 "1.0975" "1.0976" "1.097" Map.empty
      small_lot_position 45]
  by (simp add: tp1Price_def Let_def Math_round_def scenario_position_def small_lot_position_def)


section \<open>One position ticket, one managed trade\<close>

lemma resolved_tickets_Nil: "resolved_tickets [] = []"
  by (simp add: resolved_tickets_def map_filter_simps)

lemma resolved_tickets_Cons:
  "resolved_tickets (t # ts) =
     (case mt_position_ticket t of None \<Rightarrow> resolved_tickets ts | Some pt \<Rightarrow> pt # resolved_tickets ts)"
  by (simp add: resolved_tickets_def map_filter_simps split: option.split)

lemma resolved_tickets_append:
  "resolved_tickets (xs @ ys) = resolved_tickets xs @ resolved_tickets ys"
  by (induction xs) (simp_all add: resolved_tickets_Nil resolved_tickets_Cons split: option.split)

lemma find_unclaimed:
  "find (\<lambda>m. op_ticket m \<notin> claimed) ms = Some m \<Longrightarrow> op_ticket m \<notin> claimed"
  by (auto simp: find_Some_iff)

text \<open>
  The invariant of the loop: the tickets of the trades kept so far and of the trades still to
  visit are pairwise different, and all of them are claimed.
\<close>

lemma reconcile_distinct:
  assumes "distinct (resolved_tickets acc @ resolved_tickets rest)"
      and "set (resolved_tickets acc) \<union> set (resolved_tickets rest) \<subseteq> claimed"
  shows "distinct (resolved_tickets (reconcile positions now rest claimed acc))"
  using assms
proof (induction rest arbitrary: claimed acc)
  case Nil
  then show ?case by (simp add: resolved_tickets_Nil)
next
  case (Cons t rest)
  show ?case
  proof (cases "mt_position_ticket t")
    case (Some pt)
    with Cons.prems have d: "distinct (resolved_tickets acc @ resolved_tickets rest)"
      and s: "set (resolved_tickets acc) \<union> set (resolved_tickets rest) \<subseteq> claimed"
      and d': "distinct (resolved_tickets (acc @ [t]) @ resolved_tickets rest)"
      and s': "set (resolved_tickets (acc @ [t])) \<union> set (resolved_tickets rest) \<subseteq> claimed"
      by (auto simp: resolved_tickets_Cons resolved_tickets_append resolved_tickets_Nil)
    show ?thesis
      using Some Cons.IH [OF d s] Cons.IH [OF d' s'] by simp
  next
    case None
    with Cons.prems have d: "distinct (resolved_tickets acc @ resolved_tickets rest)"
      and s: "set (resolved_tickets acc) \<union> set (resolved_tickets rest) \<subseteq> claimed"
      and d': "distinct (resolved_tickets (acc @ [t]) @ resolved_tickets rest)"
      and s': "set (resolved_tickets (acc @ [t])) \<union> set (resolved_tickets rest) \<subseteq> claimed"
      by (auto simp: resolved_tickets_Cons resolved_tickets_append resolved_tickets_Nil)
    show ?thesis
    proof (cases "find (\<lambda>m. op_ticket m \<notin> claimed) (matches positions t)")
      case unmatched: None
      show ?thesis
        using None unmatched Cons.IH [OF d s] Cons.IH [OF d' s'] by simp
    next
      case (Some m)
      then have fresh: "op_ticket m \<notin> claimed" by (rule find_unclaimed)
      let ?t' = "t\<lparr>mt_position_ticket := Some (op_ticket m)\<rparr>"
      have d'': "distinct (resolved_tickets (acc @ [?t']) @ resolved_tickets rest)"
        using d s fresh
        by (auto simp: resolved_tickets_Cons resolved_tickets_append resolved_tickets_Nil)
      have s'': "set (resolved_tickets (acc @ [?t'])) \<union> set (resolved_tickets rest)
                   \<subseteq> insert (op_ticket m) claimed"
        using s by (auto simp: resolved_tickets_Cons resolved_tickets_append resolved_tickets_Nil)
      show ?thesis
        using None Some Cons.IH [OF d s] Cons.IH [OF d'' s''] by simp
    qed
  qed
qed

text \<open>
  C6. If no two managed trades hold the same position ticket before a tick, none do after
  it, for every snapshot of the open positions and every clock reading.
\<close>

theorem tick_preserves_unique_tickets:
  "distinct (resolved_tickets prev) \<Longrightarrow> distinct (resolved_tickets (tick positions now prev))"
  unfolding tick_def
  by (rule reconcile_distinct) (simp_all add: resolved_tickets_Nil)

theorem tick_preserves_unique_tickets_witness:
  "distinct (resolved_tickets managed_trades)
   \<and> resolved_tickets managed_trades = [103]
   \<and> resolved_tickets (tick open_positions 2000 managed_trades) = [102, 103, 101]
   \<and> distinct (resolved_tickets (tick open_positions 2000 managed_trades))"
  using tick_preserves_unique_tickets [of managed_trades open_positions 2000]
  by (simp add: tick_def managed_trades_def open_positions_def resolved_tickets_def map_filter_simps
      matches_def MAGIC_def directionToPositionType_def time_or_0_def)


section \<open>Polling by timestamp\<close>

lemma tp1_notified_simps:
  "tp1_notified [] = []"
  "tp1_notified [Tp1_watcher e] = (case tp1_timestamp e of Some ts \<Rightarrow> [ts] | None \<Rightarrow> [])"
  by (simp_all add: tp1_notified_def)

lemma tp1_notified_append: "tp1_notified (xs @ ys) = tp1_notified xs @ tp1_notified ys"
  by (simp add: tp1_notified_def)

lemma sl_notified_simps:
  "sl_notified [] = []"
  "sl_notified [Tp1_watcher e] = []"
  "sl_notified [Sl_hit e'] = (case sl_timestamp e' of Some ts \<Rightarrow> [ts] | None \<Rightarrow> [])"
  by (simp_all add: sl_notified_def)

lemma sl_notified_append: "sl_notified (xs @ ys) = sl_notified xs @ sl_notified ys"
  by (simp add: sl_notified_def)

lemma check_sl_tp1: "lastSeenTp1Ts (fst (check_sl status st ns)) = lastSeenTp1Ts st"
  by (simp add: check_sl_def Let_def split: option.split)

lemma check_sl_tp1_notified: "tp1_notified (snd (check_sl status st ns)) = tp1_notified ns"
  by (simp add: check_sl_def Let_def tp1_notified_def split: option.split)

lemma check_sl_step:
  assumes "sl_notified ns = []"
  shows "(sl_notified (snd (check_sl status s ns)) = []
            \<and> lastSeenSlTs s \<le> lastSeenSlTs (fst (check_sl status s ns)))
         \<or> (\<exists>ts. sl_notified (snd (check_sl status s ns)) = [ts]
               \<and> lastSeenSlTs s < ts \<and> lastSeenSlTs (fst (check_sl status s ns)) = ts)"
  using assms
  by (simp add: check_sl_def Let_def sl_notified_append sl_notified_simps split: option.split)

lemma poll_tp1_mono: "lastSeenTp1Ts st \<le> lastSeenTp1Ts (fst (poll st res))"
  by (simp add: poll_def Let_def check_sl_tp1 split: sum.split option.split)

lemma poll_tp1_step:
  "tp1_notified (snd (poll st res)) = []
   \<or> (\<exists>ts. tp1_notified (snd (poll st res)) = [ts]
         \<and> lastSeenTp1Ts st < ts \<and> lastSeenTp1Ts (fst (poll st res)) = ts)"
  by (simp add: poll_def Let_def check_sl_tp1 check_sl_tp1_notified tp1_notified_simps
        split: sum.split option.split)

lemma poll_sl_step:
  "(sl_notified (snd (poll st res)) = [] \<and> lastSeenSlTs st \<le> lastSeenSlTs (fst (poll st res)))
   \<or> (\<exists>ts. sl_notified (snd (poll st res)) = [ts]
         \<and> lastSeenSlTs st < ts \<and> lastSeenSlTs (fst (poll st res)) = ts)"
proof (cases res)
  case (Inl e)
  then show ?thesis by (simp add: poll_def sl_notified_simps)
next
  case (Inr status)
  let ?s1 = "st\<lparr>watcherStatus := status_text status\<rparr>"
  have old: "poll st res = check_sl status ?s1 [] \<Longrightarrow> ?thesis"
    using check_sl_step [of "[]" status ?s1] by (simp add: sl_notified_simps)
  show ?thesis
  proof (cases "last_tp1_event status")
    case None
    then show ?thesis using Inr by (intro old) (simp add: poll_def Let_def)
  next
    case (Some tp1Evt)
    show ?thesis
    proof (cases "tp1_timestamp tp1Evt")
      case None
      then show ?thesis using Inr Some by (intro old) (simp add: poll_def Let_def)
    next
      case ts: (Some ts)
      show ?thesis
      proof (cases "ts > lastSeenTp1Ts st")
        case False
        then show ?thesis using Inr Some ts by (intro old) (simp add: poll_def Let_def)
      next
        case True
        let ?s2 = "?s1\<lparr>lastSeenTp1Ts := ts, tp1Done := True\<rparr>"
        show ?thesis
        proof (cases "tp1_close_volume tp1Evt")
          case None
          then show ?thesis
            using Inr Some ts True by (simp add: poll_def Let_def sl_notified_simps)
        next
          case v: (Some v)
          have "poll st res = check_sl status ?s2 [Tp1_watcher tp1Evt]"
            using Inr Some ts True v by (simp add: poll_def Let_def)
          then show ?thesis
            using check_sl_step [of "[Tp1_watcher tp1Evt]" status ?s2]
            by (simp add: sl_notified_simps)
        qed
      qed
    qed
  qed
qed

lemma polls_tp1:
  "lastSeenTp1Ts st \<le> lastSeenTp1Ts (fst (polls st rs))
   \<and> sorted_wrt (<) (lastSeenTp1Ts st # tp1_notified (snd (polls st rs)))
   \<and> (\<forall>ts \<in> set (tp1_notified (snd (polls st rs))). ts \<le> lastSeenTp1Ts (fst (polls st rs)))"
proof (induction rs arbitrary: st)
  case Nil
  show ?case by (simp add: tp1_notified_simps)
next
  case (Cons res rest)
  obtain st' ns where p: "poll st res = (st', ns)" by (cases "poll st res")
  obtain st'' ns' where q: "polls st' rest = (st'', ns')" by (cases "polls st' rest")
  have eq: "polls st (res # rest) = (st'', ns @ ns')" using p q by simp
  from Cons.IH [of st'] q
  have ih: "lastSeenTp1Ts st' \<le> lastSeenTp1Ts st''"
       "sorted_wrt (<) (lastSeenTp1Ts st' # tp1_notified ns')"
       "\<forall>ts \<in> set (tp1_notified ns'). ts \<le> lastSeenTp1Ts st''"
    by simp_all
  have mono: "lastSeenTp1Ts st \<le> lastSeenTp1Ts st'"
    using poll_tp1_mono [of st res] p by simp
  from poll_tp1_step [of st res] p
  consider "tp1_notified ns = []"
    | ts where "tp1_notified ns = [ts]" "lastSeenTp1Ts st < ts" "lastSeenTp1Ts st' = ts"
    by auto
  then show ?case
  proof cases
    case 1
    then show ?thesis using eq ih mono by (auto simp: tp1_notified_append)
  next
    case 2
    then show ?thesis using eq ih mono by (auto simp: tp1_notified_append)
  qed
qed

lemma polls_sl:
  "lastSeenSlTs st \<le> lastSeenSlTs (fst (polls st rs))
   \<and> sorted_wrt (<) (lastSeenSlTs st # sl_notified (snd (polls st rs)))
   \<and> (\<forall>ts \<in> set (sl_notified (snd (polls st rs))). ts \<le> lastSeenSlTs (fst (polls st rs)))"
proof (induction rs arbitrary: st)
  case Nil
  show ?case by (simp add: sl_notified_simps)
next
  case (Cons res rest)
  obtain st' ns where p: "poll st res = (st', ns)" by (cases "poll st res")
  obtain st'' ns' where q: "polls st' rest = (st'', ns')" by (cases "polls st' rest")
  have eq: "polls st (res # rest) = (st'', ns @ ns')" using p q by simp
  from Cons.IH [of st'] q
  have ih: "lastSeenSlTs st' \<le> lastSeenSlTs st''"
       "sorted_wrt (<) (lastSeenSlTs st' # sl_notified ns')"
       "\<forall>ts \<in> set (sl_notified ns'). ts \<le> lastSeenSlTs st''"
    by simp_all
  from poll_sl_step [of st res] p
  consider "sl_notified ns = []" "lastSeenSlTs st \<le> lastSeenSlTs st'"
    | ts where "sl_notified ns = [ts]" "lastSeenSlTs st < ts" "lastSeenSlTs st' = ts"
    by auto
  then show ?case
  proof cases
    case 1
    then show ?thesis using eq ih by (auto simp: sl_notified_append)
  next
    case 2
    then show ?thesis using eq ih by (auto simp: sl_notified_append)
  qed
qed

lemma stamps_increasing: "sorted_wrt (<) (prev # stamps prev clocks)"
proof (induction clocks arbitrary: prev)
  case Nil
  show ?case by simp
next
  case (Cons clock clocks)
  have "prev < next_timestamp prev clock" by (simp add: next_timestamp_def)
  moreover from Cons.IH [of "next_timestamp prev clock"]
  have "sorted_wrt (<) (next_timestamp prev clock # stamps (next_timestamp prev clock) clocks)" .
  ultimately show ?case by auto
qed

lemma poll_events_stamped:
  "(\<forall>e \<in> set (tp1_events (snd (poll st res))). tp1_timestamp e \<noteq> None)
   \<and> (\<forall>e \<in> set (sl_events (snd (poll st res))). sl_timestamp e \<noteq> None)"
  by (auto simp: poll_def check_sl_def Let_def tp1_events_def sl_events_def
        split: sum.splits option.splits if_splits)

lemma polls_events_stamped:
  "(\<forall>e \<in> set (tp1_events (snd (polls st rs))). tp1_timestamp e \<noteq> None)
   \<and> (\<forall>e \<in> set (sl_events (snd (polls st rs))). sl_timestamp e \<noteq> None)"
proof (induction rs arbitrary: st)
  case Nil
  show ?case by (simp add: tp1_events_def sl_events_def)
next
  case (Cons res rest)
  obtain st' ns where p: "poll st res = (st', ns)" by (cases "poll st res")
  obtain st'' ns' where q: "polls st' rest = (st'', ns')" by (cases "polls st' rest")
  have eq: "polls st (res # rest) = (st'', ns @ ns')" using p q by simp
  show ?case
    using eq poll_events_stamped [of st res] p Cons.IH [of st'] q
    by (auto simp: tp1_events_def sl_events_def)
qed

lemma tp1_notified_events:
  "\<forall>e \<in> set (tp1_events ns). tp1_timestamp e \<noteq> None \<Longrightarrow>
   tp1_notified ns = map (\<lambda>e. the (tp1_timestamp e)) (tp1_events ns)"
proof (induction ns)
  case Nil
  show ?case by (simp add: tp1_notified_def tp1_events_def)
next
  case (Cons n ns)
  then show ?case
    by (cases n) (auto simp: tp1_notified_def tp1_events_def)
qed

lemma sl_notified_events:
  "\<forall>e \<in> set (sl_events ns). sl_timestamp e \<noteq> None \<Longrightarrow>
   sl_notified ns = map (\<lambda>e. the (sl_timestamp e)) (sl_events ns)"
proof (induction ns)
  case Nil
  show ?case by (simp add: sl_notified_def sl_events_def)
next
  case (Cons n ns)
  then show ?case
    by (cases n) (auto simp: sl_notified_def sl_events_def)
qed

lemma events_once:
  assumes "distinct (tp1_notified (snd (polls st rs)))" "distinct (sl_notified (snd (polls st rs)))"
  shows "distinct (tp1_events (snd (polls st rs))) \<and> distinct (sl_events (snd (polls st rs)))"
proof -
  have "distinct (map (\<lambda>e. the (tp1_timestamp e)) (tp1_events (snd (polls st rs))))"
    using assms(1) polls_events_stamped [of st rs] tp1_notified_events by metis
  moreover have "distinct (map (\<lambda>e. the (sl_timestamp e)) (sl_events (snd (polls st rs))))"
    using assms(2) polls_events_stamped [of st rs] sl_notified_events by metis
  ultimately show ?thesis by (simp add: distinct_map)
qed

text \<open>
  C7. The timestamps of successive events of one kind are strictly increasing. Over any
  sequence of polls the last-seen timestamp of each kind never decreases; the timestamps
  the panel notifies, in the order of the notifications, are strictly increasing from the
  last-seen timestamp it started with; and no event of either kind is notified twice.
\<close>

theorem poller_notifies_once:
  "sorted_wrt (<) (prev # stamps prev clocks)
   \<and> lastSeenTp1Ts st \<le> lastSeenTp1Ts (fst (polls st rs))
   \<and> lastSeenSlTs st \<le> lastSeenSlTs (fst (polls st rs))
   \<and> sorted_wrt (<) (lastSeenTp1Ts st # tp1_notified (snd (polls st rs)))
   \<and> sorted_wrt (<) (lastSeenSlTs st # sl_notified (snd (polls st rs)))
   \<and> distinct (tp1_events (snd (polls st rs)))
   \<and> distinct (sl_events (snd (polls st rs)))"
proof -
  have a: "sorted_wrt (<) (lastSeenTp1Ts st # tp1_notified (snd (polls st rs)))"
    using polls_tp1 [of st rs] by blast
  have b: "sorted_wrt (<) (lastSeenSlTs st # sl_notified (snd (polls st rs)))"
    using polls_sl [of st rs] by blast
  have "distinct (lastSeenTp1Ts st # tp1_notified (snd (polls st rs)))"
    using a strict_sorted_iff by blast
  moreover have "distinct (lastSeenSlTs st # sl_notified (snd (polls st rs)))"
    using b strict_sorted_iff by blast
  ultimately have "distinct (tp1_events (snd (polls st rs))) \<and> distinct (sl_events (snd (polls st rs)))"
    by (intro events_once) simp_all
  then show ?thesis
    using a b polls_tp1 [of st rs] polls_sl [of st rs] stamps_increasing [of prev clocks]
    by simp
qed


section \<open>The form validation\<close>

lemma parseFloat_not_numeric: "parseFloat ''abc'' = NaN" "parseFloat ''null'' = NaN"
  by (simp_all add: parseFloat_def str_unsigned_decimal_def is_space_def is_digit_def)

lemma parseFloat_defaults:
  "parseFloat ''10000'' = Num 10000" "parseFloat ''1.0'' = Num 1"
  "parseFloat ''2000.00'' = Num 2000" "parseFloat ''50'' = Num 50" "parseFloat ''10'' = Num 10"
  by (simp_all add: parseFloat_def str_unsigned_decimal_def is_space_def is_digit_def
        digits_val_def scale10_def exponent_part_def)

text \<open>
  What a passing validation does establish: a symbol is chosen, no field is empty, and no
  parsed field is at most zero, nor the risk above 100. Not-a-number is neither.
\<close>

lemma validateForm_passes:
  assumes "snd (validateForm active_symbol formData)"
  shows "active_symbol \<noteq> []
     \<and> \<not> js_le (parseFloat (f_account_balance formData)) 0
     \<and> \<not> js_le (parseFloat (f_risk_percent formData)) 0
     \<and> \<not> js_gt (parseFloat (f_risk_percent formData)) 100
     \<and> \<not> js_le (parseFloat (f_entry_price formData)) 0
     \<and> \<not> js_le (parseFloat (f_stop_pips formData)) 0
     \<and> \<not> js_le (parseFloat (f_pip_value_per_1_lot formData)) 0"
  using assms by (simp add: validateForm_def Let_def split: if_splits)

text \<open>
  C8 fails on the code. With the balance field holding \<^verbatim>\<open>abc\<close> the parsed balance is
  not-a-number, which is not greater than 0, and yet the validation sets no error, returns
  true, and \<^verbatim>\<open>handleSubmit\<close> calls \<^verbatim>\<open>onCalculate\<close> with the form. The same happens
  with the pip value \<^verbatim>\<open>null\<close>.
\<close>

theorem validateForm_accepts_not_a_number:
  "parseFloat (f_account_balance non_numeric_form) = NaN
   \<and> \<not> js_gt (parseFloat (f_account_balance non_numeric_form)) 0
   \<and> validateForm ''EURUSD'' non_numeric_form = ([], True)
   \<and> handleSubmit ''EURUSD'' non_numeric_form = ([], [non_numeric_form])
   \<and> parseFloat (f_pip_value_per_1_lot null_pip_value_form) = NaN
   \<and> \<not> js_gt (parseFloat (f_pip_value_per_1_lot null_pip_value_form)) 0
   \<and> validateForm ''EURUSD'' null_pip_value_form = ([], True)
   \<and> handleSubmit ''EURUSD'' null_pip_value_form = ([], [null_pip_value_form])"
proof -
  have valid1: "validateForm ''EURUSD'' non_numeric_form = ([], True)"
    by (simp add: validateForm_def Let_def non_numeric_form_def parseFloat_not_numeric
          parseFloat_defaults js_le_def js_gt_def)
  have valid2: "validateForm ''EURUSD'' null_pip_value_form = ([], True)"
    by (simp add: validateForm_def Let_def null_pip_value_form_def parseFloat_not_numeric
          parseFloat_defaults js_le_def js_gt_def)
  have nan: "parseFloat (f_account_balance non_numeric_form) = NaN"
    "parseFloat (f_pip_value_per_1_lot null_pip_value_form) = NaN"
    by (simp_all add: non_numeric_form_def null_pip_value_form_def parseFloat_not_numeric)
  show ?thesis
    using nan valid1 valid2 by (simp add: handleSubmit_def js_gt_def)
qed


section \<open>Closing a position is the 100 percent partial close\<close>

text \<open>
  C9. For every position ticket and armed flag, \<^verbatim>\<open>closePosition\<close> posts the same request
  as \<^verbatim>\<open>partialClose\<close> given the body with that ticket, percent 100 and that flag, to the
  same URL, and hands back the same response (or the same rejection), whatever the endpoint
  answers and whatever was sent before. The one request it adds to the log is that body at
  the partial-close URL.
\<close>

theorem closePosition_is_partialClose_100:
  "closePosition ep t a sent =
     partialClose ep \<lparr>pc_position_ticket = Some t, pc_percent = Some 100,
                      pc_ticket = None, pc_volume = None, pc_ui_armed = a\<rparr> sent
   \<and> snd (closePosition ep t a sent) =
       sent @ [\<lparr>req_url = ''/mt5/partial-close'',
                req_body = \<lparr>pc_position_ticket = Some t, pc_percent = Some 100,
                             pc_ticket = None, pc_volume = None, pc_ui_armed = a\<rparr>\<rparr>]
   \<and> fst (closePosition ep t a sent) =
       ep sent \<lparr>req_url = ''/mt5/partial-close'',
                req_body = \<lparr>pc_position_ticket = Some t, pc_percent = Some 100,
                             pc_ticket = None, pc_volume = None, pc_ui_armed = a\<rparr>\<rparr>"
  by (simp add: closePosition_def partialClose_def apiClient_post_def Let_def)

end
